theory Spec2Isabelle
  imports Main "HOL-Library.AList"
begin

section \<open>TrendRadar configuration loader (trendradar/core/loader.py)\<close>

text \<open>
  A shallow embedding of \<^verbatim>\<open>trendradar/core/loader.py\<close>. The process environment
  \<^verbatim>\<open>os.environ\<close> is an explicit map that every function receives; functions that
  mutate it return the new map. Exceptions are values of the type \<open>error\<close>, and a
  function that may raise returns \<open>error + 'a\<close>. Printed output is returned as data.
\<close>

subsection \<open>Strings\<close>

text \<open>
  A string is a list of \<open>char\<close>, and a \<open>char\<close> is a character by its code point, of
  which the type holds those below 256. On these characters the functions below agree
  with Python's: \<open>is_space\<close> holds of the twelve characters for which
  \<^verbatim>\<open>str.isspace\<close> holds (the characters \<^verbatim>\<open>str.strip()\<close> removes, U+0085 and U+00A0
  among them), \<open>lower_char\<close> is \<^verbatim>\<open>str.lower\<close> on one character (the letters A to Z and
  U+00C0 to U+00DE without U+00D7 move up by 32), and the decimal digits are 0 to 9.
\<close>

definition is_space :: "char \<Rightarrow> bool" where
  "is_space c \<longleftrightarrow> c \<in> {CHR '' '', CHR 0x09, CHR 0x0A, CHR 0x0B, CHR 0x0C, CHR 0x0D,
     CHR 0x1C, CHR 0x1D, CHR 0x1E, CHR 0x1F, CHR 0x85, CHR 0xA0}"

definition strip :: "string \<Rightarrow> string" where
  "strip s = rev (dropWhile is_space (rev (dropWhile is_space s)))"

definition upper_letters :: string where
  "upper_letters = ''ABCDEFGHIJKLMNOPQRSTUVWXYZ'' @
     [CHR 0xC0, CHR 0xC1, CHR 0xC2, CHR 0xC3, CHR 0xC4, CHR 0xC5, CHR 0xC6, CHR 0xC7,
     CHR 0xC8, CHR 0xC9, CHR 0xCA, CHR 0xCB, CHR 0xCC, CHR 0xCD, CHR 0xCE, CHR 0xCF,
     CHR 0xD0, CHR 0xD1, CHR 0xD2, CHR 0xD3, CHR 0xD4, CHR 0xD5, CHR 0xD6, CHR 0xD8,
     CHR 0xD9, CHR 0xDA, CHR 0xDB, CHR 0xDC, CHR 0xDD, CHR 0xDE]"

definition lower_letters :: string where
  "lower_letters = ''abcdefghijklmnopqrstuvwxyz'' @
     [CHR 0xE0, CHR 0xE1, CHR 0xE2, CHR 0xE3, CHR 0xE4, CHR 0xE5, CHR 0xE6, CHR 0xE7,
     CHR 0xE8, CHR 0xE9, CHR 0xEA, CHR 0xEB, CHR 0xEC, CHR 0xED, CHR 0xEE, CHR 0xEF,
     CHR 0xF0, CHR 0xF1, CHR 0xF2, CHR 0xF3, CHR 0xF4, CHR 0xF5, CHR 0xF6, CHR 0xF8,
     CHR 0xF9, CHR 0xFA, CHR 0xFB, CHR 0xFC, CHR 0xFD, CHR 0xFE]"

definition lower_char :: "char \<Rightarrow> char" where
  "lower_char c =
     (case map_of (zip upper_letters lower_letters) c of
        Some d \<Rightarrow> d
      | None \<Rightarrow> c)"

definition lower :: "string \<Rightarrow> string" where
  "lower s = map lower_char s"

definition startswith :: "string \<Rightarrow> string \<Rightarrow> bool" where
  "startswith s p \<longleftrightarrow> take (length p) s = p"

definition endswith :: "string \<Rightarrow> string \<Rightarrow> bool" where
  "endswith s p \<longleftrightarrow> length p \<le> length s \<and> drop (length s - length p) s = p"

text \<open>\<^verbatim>\<open>s.partition(c)\<close> for a string that contains \<open>c\<close>: the text before the first
  \<open>c\<close> and the text after it.\<close>

definition partition_at :: "char \<Rightarrow> string \<Rightarrow> string \<times> string" where
  "partition_at c s = (takeWhile (\<lambda>x. x \<noteq> c) s, tl (dropWhile (\<lambda>x. x \<noteq> c) s))"

text \<open>The slice \<^verbatim>\<open>value[1:-1]\<close>; it is empty for strings of length 0 and 1.\<close>

definition slice_1_m1 :: "string \<Rightarrow> string" where
  "slice_1_m1 s = butlast (tl s)"

text \<open>
  \<^verbatim>\<open>int(value)\<close> on a string without surrounding whitespace: an optional sign, then
  decimal digits, where single underscores may stand between digits. \<open>None\<close> is the
  \<^verbatim>\<open>ValueError\<close>, which Python also raises when the string has more than
  \<open>max_str_digits\<close> digits (leading zeros count, the sign and underscores do not); the
  same limit holds for the text of an int.
\<close>

definition max_str_digits :: nat where
  "max_str_digits = 4300"

definition digit_of :: "char \<Rightarrow> nat option" where
  "digit_of c = map_of (zip ''0123456789'' [0, 1, 2, 3, 4, 5, 6, 7, 8, 9]) c"

fun digits_value :: "string \<Rightarrow> nat \<Rightarrow> nat option" where
  "digits_value [] acc = Some acc"
| "digits_value (c # cs) acc =
     (case digit_of c of
        Some d \<Rightarrow> digits_value cs (10 * acc + d)
      | None \<Rightarrow>
          (if c = CHR ''_'' then
             (case cs of
                [] \<Rightarrow> None
              | c' # _ \<Rightarrow> (if digit_of c' = None then None else digits_value cs acc))
           else None))"

definition py_nat :: "string \<Rightarrow> nat option" where
  "py_nat s =
     (case s of
        [] \<Rightarrow> None
      | c # _ \<Rightarrow>
          (if digit_of c = None then None
           else if max_str_digits < length (filter (\<lambda>c. digit_of c \<noteq> None) s) then None
           else digits_value s 0))"

definition py_int :: "string \<Rightarrow> int option" where
  "py_int s =
     (case s of
        [] \<Rightarrow> None
      | c # cs \<Rightarrow>
          (if c = CHR ''+'' then map_option int (py_nat cs)
           else if c = CHR ''-'' then map_option (\<lambda>n. - int n) (py_nat cs)
           else map_option int (py_nat s)))"

subsection \<open>Errors and the environment\<close>

datatype error =
    FileNotFoundError
  | ReadError
  | YAMLError
  | AttributeError
  | TypeError
  | KeyError
  | ValueError

type_synonym environ = "string \<rightharpoonup> string"

definition bind :: "error + 'a \<Rightarrow> ('a \<Rightarrow> error + 'b) \<Rightarrow> error + 'b" where
  "bind m f = (case m of Inl e \<Rightarrow> Inl e | Inr x \<Rightarrow> f x)"

text \<open>\<^verbatim>\<open>os.environ.get(key, "")\<close>.\<close>

definition environ_get :: "environ \<Rightarrow> string \<Rightarrow> string" where
  "environ_get env key = (case env key of Some v \<Rightarrow> v | None \<Rightarrow> [])"

text \<open>\<^verbatim>\<open>os.environ[key] = value\<close> raises \<^verbatim>\<open>ValueError\<close> when the name or the value
  holds a null character.\<close>

definition environ_set :: "environ \<Rightarrow> string \<Rightarrow> string \<Rightarrow> error + environ" where
  "environ_set env key v =
     (if CHR 0x00 \<in> set key \<or> CHR 0x00 \<in> set v then Inl ValueError
      else Inr (env(key \<mapsto> v)))"

subsection \<open>\<open>_load_dotenv\<close>\<close>

text \<open>
  The parsing part of the loop body: the stripped line is skipped when it is empty, a
  comment, or has no \<open>=\<close>; otherwise it gives a key and a value, the value with one pair
  of surrounding quotes removed.
\<close>

definition dotenv_entry :: "string \<Rightarrow> (string \<times> string) option" where
  "dotenv_entry raw =
     (let line = strip raw in
      if line = [] \<or> startswith line ''#'' then None
      else if CHR ''='' \<in> set line then
        (let (key, v) = partition_at CHR ''='' line;
             key = strip key;
             v = strip v;
             v = (if (startswith v [CHR 0x22] \<and> endswith v [CHR 0x22]) \<or>
                     (startswith v [CHR 0x27] \<and> endswith v [CHR 0x27])
                  then slice_1_m1 v else v)
         in Some (key, v))
      else None)"

text \<open>The loop body: the variable is set only when the key is not empty and not in the
  environment; \<open>loaded_count\<close> counts the variables set.\<close>

definition dotenv_step :: "string \<Rightarrow> environ \<times> nat \<Rightarrow> error + environ \<times> nat" where
  "dotenv_step raw st =
     (case dotenv_entry raw of
        None \<Rightarrow> Inr st
      | Some (key, v) \<Rightarrow>
          (if key \<noteq> [] \<and> fst st key = None
           then bind (environ_set (fst st) key v) (\<lambda>env'. Inr (env', snd st + 1))
           else Inr st))"

text \<open>The loop. An exception leaves the loop; the variables set before it stay set.\<close>

fun dotenv_lines :: "string list \<Rightarrow> environ \<times> nat \<Rightarrow> bool \<times> environ \<times> nat" where
  "dotenv_lines [] st = (True, st)"
| "dotenv_lines (raw # rest) st =
     (case dotenv_step raw st of
        Inl e \<Rightarrow> (False, st)
      | Inr st' \<Rightarrow> dotenv_lines rest st')"

text \<open>
  The file is \<open>None\<close> when the path does not exist; otherwise it is the lines that can
  be read and a flag saying that opening or reading then fails (the \<^verbatim>\<open>except\<close>
  branch). The result is the returned flag, the environment afterwards and
  \<open>loaded_count\<close>.
\<close>

definition load_dotenv :: "(string list \<times> bool) option \<Rightarrow> environ \<Rightarrow> bool \<times> environ \<times> nat" where
  "load_dotenv env_file env =
     (case env_file of
        None \<Rightarrow> (False, env, 0)
      | Some (lines, fails) \<Rightarrow>
          (case dotenv_lines lines (env, 0) of
             (ok, env', loaded_count) \<Rightarrow> (ok \<and> \<not> fails, env', loaded_count)))"

subsection \<open>Typed accessors for the environment\<close>

definition get_env_bool :: "environ \<Rightarrow> string \<Rightarrow> bool option" where
  "get_env_bool env key =
     (let v = lower (strip (environ_get env key)) in
      if v = [] then None else Some (v \<in> {''true'', ''1''}))"

definition get_env_int :: "environ \<Rightarrow> string \<Rightarrow> int \<Rightarrow> int" where
  "get_env_int env key dflt =
     (let v = strip (environ_get env key) in
      if v = [] then dflt
      else (case py_int v of Some i \<Rightarrow> i | None \<Rightarrow> dflt))"

definition get_env_str :: "environ \<Rightarrow> string \<Rightarrow> string \<Rightarrow> string" where
  "get_env_str env key dflt =
     (let v = strip (environ_get env key) in if v \<noteq> [] then v else dflt)"

subsection \<open>Python values\<close>

text \<open>
  What \<^verbatim>\<open>yaml.safe_load\<close> returns and what the configuration holds, as a finite
  tree. A float is a finite value \<open>m * 2 ^ e\<close>, an infinity or a NaN. \<open>PSet\<close> is a set by
  its elements. \<open>PObject\<close> stands for the other objects the loader can build (a date, a
  time stamp, bytes), with their truth value; the code can only test them, pass them on,
  print them, or fail on them. A dict is an association list in which a key occurs once.
\<close>

datatype pyfloat = Finite int int | PosInf | NegInf | NaN

datatype pyval =
    PNone
  | PBool bool
  | PInt int
  | PFloat pyfloat
  | PStr string
  | PList "pyval list"
  | PDict "(pyval \<times> pyval) list"
  | PSet "pyval list"
  | PObject bool

type_synonym config = "(string \<times> pyval) list"

fun truthy :: "pyval \<Rightarrow> bool" where
  "truthy PNone = False"
| "truthy (PBool b) = b"
| "truthy (PInt i) = (i \<noteq> 0)"
| "truthy (PFloat f) = (case f of Finite m e \<Rightarrow> m \<noteq> 0 | _ \<Rightarrow> True)"
| "truthy (PStr s) = (s \<noteq> [])"
| "truthy (PList xs) = (xs \<noteq> [])"
| "truthy (PDict kvs) = (kvs \<noteq> [])"
| "truthy (PSet xs) = (xs \<noteq> [])"
| "truthy (PObject b) = b"

text \<open>\<^verbatim>\<open>d.get(key, dflt)\<close>: only a dict has the method.\<close>

definition py_get :: "pyval \<Rightarrow> string \<Rightarrow> pyval \<Rightarrow> error + pyval" where
  "py_get d key dflt =
     (case d of
        PDict kvs \<Rightarrow> Inr (case map_of kvs (PStr key) of Some v \<Rightarrow> v | None \<Rightarrow> dflt)
      | _ \<Rightarrow> Inl AttributeError)"

text \<open>\<^verbatim>\<open>x or y\<close>: the right operand is evaluated only when \<open>x\<close> is falsy.\<close>

definition py_or :: "pyval \<Rightarrow> error + pyval \<Rightarrow> error + pyval" where
  "py_or x y = (if truthy x then Inr x else y)"

text \<open>\<^verbatim>\<open>x if x is not None else y\<close> for the result of \<open>get_env_bool\<close>.\<close>

definition if_not_none :: "bool option \<Rightarrow> error + pyval \<Rightarrow> error + pyval" where
  "if_not_none x y = (case x of Some b \<Rightarrow> Inr (PBool b) | None \<Rightarrow> y)"

text \<open>A dict display \<^verbatim>\<open>{k1: e1, k2: e2, ...}\<close>: the values are evaluated in order, and
  the first exception leaves the display.\<close>

fun dict_display :: "(string \<times> (error + pyval)) list \<Rightarrow> error + config" where
  "dict_display [] = Inr []"
| "dict_display ((k, e) # rest) =
     bind e (\<lambda>v. bind (dict_display rest) (\<lambda>d. Inr ((k, v) # d)))"

text \<open>A dict built by the loader, as a value stored in the configuration.\<close>

definition as_dict :: "config \<Rightarrow> pyval" where
  "as_dict d = PDict (map (\<lambda>(k, v). (PStr k, v)) d)"

text \<open>\<^verbatim>\<open>config.update(d)\<close> and \<^verbatim>\<open>config[key] = v\<close>.\<close>

definition dict_update :: "config \<Rightarrow> config \<Rightarrow> config" where
  "dict_update c d = fold (\<lambda>(k, v). AList.update k v) d c"

text \<open>\<^verbatim>\<open>config[key]\<close>.\<close>

definition config_item :: "config \<Rightarrow> string \<Rightarrow> error + pyval" where
  "config_item c key = (case map_of c key of Some v \<Rightarrow> Inr v | None \<Rightarrow> Inl KeyError)"

text \<open>\<^verbatim>\<open>f < a\<close> for a float \<open>f\<close> and an int \<open>a\<close> (Python compares them exactly).\<close>

definition float_lt_int :: "pyfloat \<Rightarrow> int \<Rightarrow> bool" where
  "float_lt_int f a =
     (case f of
        Finite m e \<Rightarrow> (if 0 \<le> e then m * 2 ^ nat e < a else m < a * 2 ^ nat (- e))
      | PosInf \<Rightarrow> False
      | NegInf \<Rightarrow> True
      | NaN \<Rightarrow> False)"

text \<open>\<^verbatim>\<open>v < a\<close> for an int \<open>a\<close>: a \<^verbatim>\<open>TypeError\<close> unless \<open>v\<close> is a number.\<close>

definition py_lt_int :: "pyval \<Rightarrow> int \<Rightarrow> error + bool" where
  "py_lt_int v a =
     (case v of
        PInt m \<Rightarrow> Inr (m < a)
      | PBool b \<Rightarrow> Inr ((if b then 1 else 0) < a)
      | PFloat f \<Rightarrow> Inr (float_lt_int f a)
      | _ \<Rightarrow> Inl TypeError)"

text \<open>\<^verbatim>\<open>min(a, v)\<close> for an int \<open>a\<close>: \<open>v\<close> when \<open>v < a\<close>, else \<open>a\<close>.\<close>

definition py_min :: "int \<Rightarrow> pyval \<Rightarrow> error + pyval" where
  "py_min a v = bind (py_lt_int v a) (\<lambda>less. Inr (if less then v else PInt a))"

text \<open>
  \<^verbatim>\<open>str(v)\<close> returns: the text of an int has at most \<open>max_str_digits\<close> digits, and
  the text of a list, dict or set holds the texts of its elements.
\<close>

fun formats :: "pyval \<Rightarrow> bool" where
  "formats (PInt i) = (\<bar>i\<bar> < 10 ^ max_str_digits)"
| "formats (PList xs) = (\<forall>x \<in> set xs. formats x)"
| "formats (PDict kvs) = (\<forall>p \<in> set kvs. formats (fst p) \<and> formats (snd p))"
| "formats (PSet xs) = (\<forall>x \<in> set xs. formats x)"
| "formats _ = True"

text \<open>A value inside an f-string: \<^verbatim>\<open>ValueError\<close> when its text cannot be made.\<close>

definition format_value :: "pyval \<Rightarrow> error + pyval" where
  "format_value v = (if formats v then Inr v else Inl ValueError)"

text \<open>
  The count \<open>c = min(n, max_accounts)\<close> inside an f-string. Here \<open>n\<close> is the length of a
  list, or the validator's count of accounts: an int below \<open>2 ^ 63\<close>, whose text is always
  made. When the count is not \<open>n\<close> it is \<open>max_accounts\<close>, whose text may fail.
\<close>

definition count_text :: "int \<Rightarrow> pyval \<Rightarrow> error + pyval" where
  "count_text n c = (if c = PInt n then Inr c else format_value c)"

subsection \<open>The section loaders\<close>

definition load_app_config :: "environ \<Rightarrow> pyval \<Rightarrow> error + config" where
  "load_app_config env config_data =
     bind (py_get config_data ''app'' (PDict [])) (\<lambda>app_config.
     dict_display
       [(''VERSION_CHECK_URL'', py_get app_config ''version_check_url'' (PStr [])),
        (''SHOW_VERSION_UPDATE'', py_get app_config ''show_version_update'' (PBool True)),
        (''TIMEZONE'', py_or (PStr (get_env_str env ''TIMEZONE'' []))
           (py_get app_config ''timezone'' (PStr ''Asia/Shanghai'')))])"

definition load_crawler_config :: "environ \<Rightarrow> pyval \<Rightarrow> error + config" where
  "load_crawler_config env config_data =
     bind (py_get config_data ''crawler'' (PDict [])) (\<lambda>crawler_config.
     let enable_crawler_env = get_env_bool env ''ENABLE_CRAWLER'' in
     dict_display
       [(''REQUEST_INTERVAL'', py_get crawler_config ''request_interval'' (PInt 100)),
        (''USE_PROXY'', py_get crawler_config ''use_proxy'' (PBool False)),
        (''DEFAULT_PROXY'', py_get crawler_config ''default_proxy'' (PStr [])),
        (''ENABLE_CRAWLER'', if_not_none enable_crawler_env
           (py_get crawler_config ''enable_crawler'' (PBool True)))])"

definition load_report_config :: "environ \<Rightarrow> pyval \<Rightarrow> error + config" where
  "load_report_config env config_data =
     bind (py_get config_data ''report'' (PDict [])) (\<lambda>report_config.
     let sort_by_position_env = get_env_bool env ''SORT_BY_POSITION_FIRST'';
         reverse_content_env = get_env_bool env ''REVERSE_CONTENT_ORDER'';
         max_news_env = get_env_int env ''MAX_NEWS_PER_KEYWORD'' 0
     in
     dict_display
       [(''REPORT_MODE'', py_or (PStr (get_env_str env ''REPORT_MODE'' []))
           (py_get report_config ''mode'' (PStr ''daily''))),
        (''RANK_THRESHOLD'', py_get report_config ''rank_threshold'' (PInt 10)),
        (''SORT_BY_POSITION_FIRST'', if_not_none sort_by_position_env
           (py_get report_config ''sort_by_position_first'' (PBool False))),
        (''MAX_NEWS_PER_KEYWORD'', py_or (PInt max_news_env)
           (py_get report_config ''max_news_per_keyword'' (PInt 0))),
        (''REVERSE_CONTENT_ORDER'', if_not_none reverse_content_env
           (py_get report_config ''reverse_content_order'' (PBool False)))])"

definition load_notification_config :: "environ \<Rightarrow> pyval \<Rightarrow> error + config" where
  "load_notification_config env config_data =
     bind (py_get config_data ''notification'' (PDict [])) (\<lambda>notification.
     let enable_notification_env = get_env_bool env ''ENABLE_NOTIFICATION'' in
     dict_display
       [(''ENABLE_NOTIFICATION'', if_not_none enable_notification_env
           (py_get notification ''enable_notification'' (PBool True))),
        (''MESSAGE_BATCH_SIZE'', py_get notification ''message_batch_size'' (PInt 4000)),
        (''DINGTALK_BATCH_SIZE'', py_get notification ''dingtalk_batch_size'' (PInt 20000)),
        (''FEISHU_BATCH_SIZE'', py_get notification ''feishu_batch_size'' (PInt 29000)),
        (''BARK_BATCH_SIZE'', py_get notification ''bark_batch_size'' (PInt 3600)),
        (''SLACK_BATCH_SIZE'', py_get notification ''slack_batch_size'' (PInt 4000)),
        (''BATCH_SEND_INTERVAL'',
           py_get notification ''batch_send_interval'' (PFloat (Finite 1 0))),
        (''FEISHU_MESSAGE_SEPARATOR'',
           py_get notification ''feishu_message_separator'' (PStr ''---'')),
        (''MAX_ACCOUNTS_PER_CHANNEL'',
           py_or (PInt (get_env_int env ''MAX_ACCOUNTS_PER_CHANNEL'' 0))
             (py_get notification ''max_accounts_per_channel'' (PInt 3)))])"

definition load_push_window_config :: "environ \<Rightarrow> pyval \<Rightarrow> error + config" where
  "load_push_window_config env config_data =
     bind (py_get config_data ''notification'' (PDict [])) (\<lambda>notification.
     bind (py_get notification ''push_window'' (PDict [])) (\<lambda>push_window.
     bind (py_get push_window ''time_range'' (PDict [])) (\<lambda>time_range.
     let enabled_env = get_env_bool env ''PUSH_WINDOW_ENABLED'';
         once_per_day_env = get_env_bool env ''PUSH_WINDOW_ONCE_PER_DAY''
     in
     dict_display
       [(''ENABLED'', if_not_none enabled_env (py_get push_window ''enabled'' (PBool False))),
        (''TIME_RANGE'', map_sum id as_dict (dict_display
           [(''START'', py_or (PStr (get_env_str env ''PUSH_WINDOW_START'' []))
               (py_get time_range ''start'' (PStr ''08:00''))),
            (''END'', py_or (PStr (get_env_str env ''PUSH_WINDOW_END'' []))
               (py_get time_range ''end'' (PStr ''22:00'')))])),
        (''ONCE_PER_DAY'', if_not_none once_per_day_env
           (py_get push_window ''once_per_day'' (PBool True)))])))"

definition load_weight_config :: "pyval \<Rightarrow> error + config" where
  "load_weight_config config_data =
     bind (py_get config_data ''weight'' (PDict [])) (\<lambda>weight.
     dict_display
       [(''RANK_WEIGHT'', py_get weight ''rank_weight'' (PFloat (Finite 1 0))),
        (''FREQUENCY_WEIGHT'', py_get weight ''frequency_weight'' (PFloat (Finite 1 0))),
        (''HOTNESS_WEIGHT'', py_get weight ''hotness_weight'' (PFloat (Finite 1 0)))])"

definition load_storage_config :: "environ \<Rightarrow> pyval \<Rightarrow> error + config" where
  "load_storage_config env config_data =
     bind (py_get config_data ''storage'' (PDict [])) (\<lambda>storage.
     bind (py_get storage ''formats'' (PDict [])) (\<lambda>formats.
     bind (py_get storage ''local'' (PDict [])) (\<lambda>local.
     bind (py_get storage ''remote'' (PDict [])) (\<lambda>remote.
     bind (py_get storage ''pull'' (PDict [])) (\<lambda>pull.
     let txt_enabled_env = get_env_bool env ''STORAGE_TXT_ENABLED'';
         html_enabled_env = get_env_bool env ''STORAGE_HTML_ENABLED'';
         pull_enabled_env = get_env_bool env ''PULL_ENABLED''
     in
     dict_display
       [(''BACKEND'', py_or (PStr (get_env_str env ''STORAGE_BACKEND'' []))
           (py_get storage ''backend'' (PStr ''auto''))),
        (''FORMATS'', map_sum id as_dict (dict_display
           [(''SQLITE'', py_get formats ''sqlite'' (PBool True)),
            (''TXT'', if_not_none txt_enabled_env (py_get formats ''txt'' (PBool True))),
            (''HTML'', if_not_none html_enabled_env (py_get formats ''html'' (PBool True)))])),
        (''LOCAL'', map_sum id as_dict (dict_display
           [(''DATA_DIR'', py_get local ''data_dir'' (PStr ''output'')),
            (''RETENTION_DAYS'', py_or (PInt (get_env_int env ''LOCAL_RETENTION_DAYS'' 0))
               (py_get local ''retention_days'' (PInt 0)))])),
        (''REMOTE'', map_sum id as_dict (dict_display
           [(''ENDPOINT_URL'', py_or (PStr (get_env_str env ''S3_ENDPOINT_URL'' []))
               (py_get remote ''endpoint_url'' (PStr []))),
            (''BUCKET_NAME'', py_or (PStr (get_env_str env ''S3_BUCKET_NAME'' []))
               (py_get remote ''bucket_name'' (PStr []))),
            (''ACCESS_KEY_ID'', py_or (PStr (get_env_str env ''S3_ACCESS_KEY_ID'' []))
               (py_get remote ''access_key_id'' (PStr []))),
            (''SECRET_ACCESS_KEY'', py_or (PStr (get_env_str env ''S3_SECRET_ACCESS_KEY'' []))
               (py_get remote ''secret_access_key'' (PStr []))),
            (''REGION'', py_or (PStr (get_env_str env ''S3_REGION'' []))
               (py_get remote ''region'' (PStr []))),
            (''RETENTION_DAYS'', py_or (PInt (get_env_int env ''REMOTE_RETENTION_DAYS'' 0))
               (py_get remote ''retention_days'' (PInt 0)))])),
        (''PULL'', map_sum id as_dict (dict_display
           [(''ENABLED'', if_not_none pull_enabled_env (py_get pull ''enabled'' (PBool False))),
            (''DAYS'', py_or (PInt (get_env_int env ''PULL_DAYS'' 0))
               (py_get pull ''days'' (PInt 7)))]))])))))"

text \<open>One entry of the webhook display whose default is the empty string:
  \<^verbatim>\<open>_get_env_str(var) or webhooks.get(key, "")\<close>.\<close>

definition webhook_field :: "environ \<Rightarrow> pyval \<Rightarrow> string \<Rightarrow> string \<Rightarrow> error + pyval" where
  "webhook_field env webhooks var key =
     py_or (PStr (get_env_str env var [])) (py_get webhooks key (PStr []))"

definition load_webhook_config :: "environ \<Rightarrow> pyval \<Rightarrow> error + config" where
  "load_webhook_config env config_data =
     bind (py_get config_data ''notification'' (PDict [])) (\<lambda>notification.
     bind (py_get notification ''webhooks'' (PDict [])) (\<lambda>webhooks.
     dict_display
       [(''FEISHU_WEBHOOK_URL'', webhook_field env webhooks ''FEISHU_WEBHOOK_URL'' ''feishu_url''),
        (''DINGTALK_WEBHOOK_URL'',
           webhook_field env webhooks ''DINGTALK_WEBHOOK_URL'' ''dingtalk_url''),
        (''WEWORK_WEBHOOK_URL'', webhook_field env webhooks ''WEWORK_WEBHOOK_URL'' ''wework_url''),
        (''WEWORK_MSG_TYPE'', py_or (PStr (get_env_str env ''WEWORK_MSG_TYPE'' []))
           (py_get webhooks ''wework_msg_type'' (PStr ''markdown''))),
        (''TELEGRAM_BOT_TOKEN'',
           webhook_field env webhooks ''TELEGRAM_BOT_TOKEN'' ''telegram_bot_token''),
        (''TELEGRAM_CHAT_ID'', webhook_field env webhooks ''TELEGRAM_CHAT_ID'' ''telegram_chat_id''),
        (''EMAIL_FROM'', webhook_field env webhooks ''EMAIL_FROM'' ''email_from''),
        (''EMAIL_PASSWORD'', webhook_field env webhooks ''EMAIL_PASSWORD'' ''email_password''),
        (''EMAIL_TO'', webhook_field env webhooks ''EMAIL_TO'' ''email_to''),
        (''EMAIL_SMTP_SERVER'',
           webhook_field env webhooks ''EMAIL_SMTP_SERVER'' ''email_smtp_server''),
        (''EMAIL_SMTP_PORT'', webhook_field env webhooks ''EMAIL_SMTP_PORT'' ''email_smtp_port''),
        (''NTFY_SERVER_URL'',
           bind (py_or (PStr (get_env_str env ''NTFY_SERVER_URL'' []))
                   (py_get webhooks ''ntfy_server_url'' PNone))
             (\<lambda>v. py_or v (Inr (PStr ''https://ntfy.sh'')))),
        (''NTFY_TOPIC'', webhook_field env webhooks ''NTFY_TOPIC'' ''ntfy_topic''),
        (''NTFY_TOKEN'', webhook_field env webhooks ''NTFY_TOKEN'' ''ntfy_token''),
        (''BARK_URL'', webhook_field env webhooks ''BARK_URL'' ''bark_url''),
        (''SLACK_WEBHOOK_URL'',
           webhook_field env webhooks ''SLACK_WEBHOOK_URL'' ''slack_webhook_url'')]))"

subsection \<open>\<open>_print_notification_sources\<close>\<close>

text \<open>
  The printed text is returned as data, once every value in it has been turned into
  text: making the text of a count or of the maximum raises where Python's does.
  A summary entry
  \<open>\<lparr>channel = c, source = s, count = Some n\<rparr>\<close> is the text
  \<^verbatim>\<open>f"{c}({s}, {n}...)"\<close> with the channel's label, the source label and the count; the
  entry with \<open>count = None\<close> is the text \<^verbatim>\<open>f"{c}({s})"\<close>, which has no count.
  \<open>EnvSource\<close> and \<open>FileSource\<close> are the two source labels (environment variable,
  configuration file).
\<close>

datatype channel = Feishu | Dingtalk | Wework | Telegram | Email | Ntfy | Bark | Slack

datatype source = EnvSource | FileSource

record entry =
  channel :: channel
  source :: source
  count :: "pyval option"

datatype printed =
    LoadedLine string
  | SourcesLine "entry list"
  | MaxAccountsLine pyval
  | NoChannelLine

text \<open>
  \<^verbatim>\<open>parse_multi_account_config\<close> and \<^verbatim>\<open>validate_paired_configs\<close> are imported from
  \<^verbatim>\<open>trendradar/core/config.py\<close>; the functions below take them as the parameters
  \<open>parse\<close> and \<open>validate\<close>. What \<open>validate\<close> prints is not part of the output modelled.
\<close>

type_synonym parser = "pyval \<Rightarrow> error + string list"

type_synonym validator =
  "(string \<times> string list) list \<Rightarrow> string \<Rightarrow> string list option \<Rightarrow> bool \<times> int"

text \<open>\<^verbatim>\<open>"..." if os.environ.get(key) else "..."\<close>.\<close>

definition source_of :: "environ \<Rightarrow> string \<Rightarrow> source" where
  "source_of env key =
     (if (case env key of Some v \<Rightarrow> v \<noteq> [] | None \<Rightarrow> False) then EnvSource else FileSource)"

text \<open>\<^verbatim>\<open>config[k1] and config[k2] and ...\<close> as a condition.\<close>

fun all_truthy :: "config \<Rightarrow> string list \<Rightarrow> error + bool" where
  "all_truthy c [] = Inr True"
| "all_truthy c (k # ks) =
     bind (config_item c k) (\<lambda>v. if truthy v then all_truthy c ks else Inr False)"

text \<open>The block of a channel with one field (Feishu, DingTalk, WeWork, Bark, Slack): the
  entries it appends.\<close>

definition single_channel ::
  "parser \<Rightarrow> environ \<Rightarrow> config \<Rightarrow> pyval \<Rightarrow> channel \<Rightarrow> string \<Rightarrow> error + entry list" where
  "single_channel parse env c max_accounts ch key =
     bind (all_truthy c [key]) (\<lambda>configured.
     if configured then
       bind (config_item c key) (\<lambda>v.
       bind (parse v) (\<lambda>accounts.
       bind (py_min (int (length accounts)) max_accounts) (\<lambda>n.
       bind (count_text (int (length accounts)) n) (\<lambda>n.
       Inr [\<lparr>channel = ch, source = source_of env key, count = Some n\<rparr>]))))
     else Inr [])"

definition telegram_channel ::
  "parser \<Rightarrow> validator \<Rightarrow> environ \<Rightarrow> config \<Rightarrow> pyval \<Rightarrow> error + entry list" where
  "telegram_channel parse validate env c max_accounts =
     bind (all_truthy c [''TELEGRAM_BOT_TOKEN'', ''TELEGRAM_CHAT_ID'']) (\<lambda>configured.
     if configured then
       bind (config_item c ''TELEGRAM_BOT_TOKEN'') (\<lambda>tv.
       bind (parse tv) (\<lambda>tokens.
       bind (config_item c ''TELEGRAM_CHAT_ID'') (\<lambda>cv.
       bind (parse cv) (\<lambda>chat_ids.
       case validate [(''bot_token'', tokens), (''chat_id'', chat_ids)] ''Telegram''
              (Some [''bot_token'', ''chat_id'']) of
         (valid, n) \<Rightarrow>
           if valid \<and> n > 0 then
             bind (py_min n max_accounts) (\<lambda>c.
             bind (count_text n c) (\<lambda>n.
             Inr [\<lparr>channel = Telegram, source = source_of env ''TELEGRAM_BOT_TOKEN'',
                   count = Some n\<rparr>]))
           else Inr []))))
     else Inr [])"

definition email_channel :: "environ \<Rightarrow> config \<Rightarrow> error + entry list" where
  "email_channel env c =
     bind (all_truthy c [''EMAIL_FROM'', ''EMAIL_PASSWORD'', ''EMAIL_TO'']) (\<lambda>configured.
     if configured then
       Inr [\<lparr>channel = Email, source = source_of env ''EMAIL_FROM'', count = None\<rparr>]
     else Inr [])"

definition ntfy_channel ::
  "parser \<Rightarrow> validator \<Rightarrow> environ \<Rightarrow> config \<Rightarrow> pyval \<Rightarrow> error + entry list" where
  "ntfy_channel parse validate env c max_accounts =
     bind (all_truthy c [''NTFY_SERVER_URL'', ''NTFY_TOPIC'']) (\<lambda>configured.
     if configured then
       bind (config_item c ''NTFY_TOPIC'') (\<lambda>tv.
       bind (parse tv) (\<lambda>topics.
       bind (config_item c ''NTFY_TOKEN'') (\<lambda>kv.
       bind (parse kv) (\<lambda>tokens.
       if tokens \<noteq> [] then
         (case validate [(''topic'', topics), (''token'', tokens)] ''ntfy'' None of
            (valid, n) \<Rightarrow>
              if valid \<and> n > 0 then
                bind (py_min n max_accounts) (\<lambda>c.
                bind (count_text n c) (\<lambda>n.
                Inr [\<lparr>channel = Ntfy, source = source_of env ''NTFY_SERVER_URL'',
                      count = Some n\<rparr>]))
              else Inr [])
       else
         bind (py_min (int (length topics)) max_accounts) (\<lambda>n.
         bind (count_text (int (length topics)) n) (\<lambda>n.
         Inr [\<lparr>channel = Ntfy, source = source_of env ''NTFY_SERVER_URL'',
               count = Some n\<rparr>]))))))
     else Inr [])"

text \<open>The blocks run in order; the first exception leaves the function.\<close>

fun collect :: "(error + entry list) list \<Rightarrow> error + entry list" where
  "collect [] = Inr []"
| "collect (m # ms) = bind m (\<lambda>es. bind (collect ms) (\<lambda>rest. Inr (es @ rest)))"

definition notification_sources ::
  "parser \<Rightarrow> validator \<Rightarrow> environ \<Rightarrow> config \<Rightarrow> pyval \<Rightarrow> error + entry list" where
  "notification_sources parse validate env c max_accounts =
     collect
       [single_channel parse env c max_accounts Feishu ''FEISHU_WEBHOOK_URL'',
        single_channel parse env c max_accounts Dingtalk ''DINGTALK_WEBHOOK_URL'',
        single_channel parse env c max_accounts Wework ''WEWORK_WEBHOOK_URL'',
        telegram_channel parse validate env c max_accounts,
        email_channel env c,
        ntfy_channel parse validate env c max_accounts,
        single_channel parse env c max_accounts Bark ''BARK_URL'',
        single_channel parse env c max_accounts Slack ''SLACK_WEBHOOK_URL'']"

definition print_notification_sources ::
  "parser \<Rightarrow> validator \<Rightarrow> environ \<Rightarrow> config \<Rightarrow> error + printed list" where
  "print_notification_sources parse validate env c =
     bind (config_item c ''MAX_ACCOUNTS_PER_CHANNEL'') (\<lambda>max_accounts.
     bind (notification_sources parse validate env c max_accounts) (\<lambda>sources.
     if sources \<noteq> [] then
       bind (format_value max_accounts) (\<lambda>max_accounts.
       Inr [SourcesLine sources, MaxAccountsLine max_accounts])
     else Inr [NoChannelLine]))"

subsection \<open>\<open>load_config\<close>\<close>

text \<open>
  The file system maps a path that exists to what opening it and \<^verbatim>\<open>yaml.safe_load\<close>
  give: the file cannot be read, it is not YAML, or it parses to a value (an empty file
  parses to \<open>PNone\<close>).
\<close>

datatype config_file = Unreadable | Malformed | Document pyval

definition safe_load :: "config_file \<Rightarrow> error + pyval" where
  "safe_load f =
     (case f of Unreadable \<Rightarrow> Inl ReadError | Malformed \<Rightarrow> Inl YAMLError | Document v \<Rightarrow> Inr v)"

definition load_config ::
  "parser \<Rightarrow> validator \<Rightarrow> (string \<rightharpoonup> config_file) \<Rightarrow> environ \<Rightarrow> string option
     \<Rightarrow> error + config \<times> printed list" where
  "load_config parse validate fs env config_path =
     (let config_path =
        (case config_path of
           None \<Rightarrow> (case env ''CONFIG_PATH'' of Some p \<Rightarrow> p | None \<Rightarrow> ''config/config.yaml'')
         | Some p \<Rightarrow> p)
      in
      case fs config_path of
        None \<Rightarrow> Inl FileNotFoundError
      | Some f \<Rightarrow>
          bind (safe_load f) (\<lambda>config_data.
          bind (load_app_config env config_data) (\<lambda>app.
          bind (load_crawler_config env config_data) (\<lambda>crawler.
          bind (load_report_config env config_data) (\<lambda>report.
          bind (load_notification_config env config_data) (\<lambda>notification.
          bind (load_push_window_config env config_data) (\<lambda>push_window.
          bind (load_weight_config config_data) (\<lambda>weight.
          bind (py_get config_data ''platforms'' (PList [])) (\<lambda>platforms.
          bind (load_storage_config env config_data) (\<lambda>storage.
          bind (load_webhook_config env config_data) (\<lambda>webhooks.
          let config = dict_update [] app;
              config = dict_update config crawler;
              config = dict_update config report;
              config = dict_update config notification;
              config = dict_update config [(''PUSH_WINDOW'', as_dict push_window)];
              config = dict_update config [(''WEIGHT_CONFIG'', as_dict weight)];
              config = dict_update config [(''PLATFORMS'', platforms)];
              config = dict_update config [(''STORAGE'', as_dict storage)];
              config = dict_update config webhooks
          in
          bind (print_notification_sources parse validate env config) (\<lambda>out.
          Inr (config, LoadedLine config_path # out)))))))))))))"

subsection \<open>The account parser and the pairing validator\<close>

text \<open>
  Modelled from the spec: \<^verbatim>\<open>parse_multi_account_config\<close> is defined in
  \<^verbatim>\<open>trendradar/core/config.py\<close>, which is not among the sources. By section 4.3 of the
  spec the input string is split at commas, every token is trimmed, and the empty tokens
  are discarded.
\<close>

fun split_at :: "char \<Rightarrow> string \<Rightarrow> string list" where
  "split_at c [] = [[]]"
| "split_at c (x # xs) =
     (if x = c then [] # split_at c xs
      else (case split_at c xs of t # ts \<Rightarrow> (x # t) # ts | [] \<Rightarrow> [[x]]))"

definition parse_multi_account_config :: "string \<Rightarrow> string list" where
  "parse_multi_account_config s = filter (\<lambda>t. t \<noteq> []) (map strip (split_at CHR '','' s))"

text \<open>The parser on a Python value. The spec gives it a string; on any other value this
  model raises.\<close>

definition parse_account_value :: parser where
  "parse_account_value v =
     (case v of PStr s \<Rightarrow> Inr (parse_multi_account_config s) | _ \<Rightarrow> Inl TypeError)"

text \<open>
  Modelled from the spec: \<^verbatim>\<open>validate_paired_configs\<close> is defined in
  \<^verbatim>\<open>trendradar/core/config.py\<close>, which is not among the sources. By section 4.4 of the
  spec, with \<open>n\<close> the length of the first required field's sequence, the result is valid
  with count \<open>n\<close> when every required field's sequence has length \<open>n\<close> and \<open>n > 0\<close>, and
  invalid with count 0 otherwise. When no required names are given, every field is
  required.
\<close>

definition validate_paired_configs :: validator where
  "validate_paired_configs configs channel_name required_keys =
     (let required = (case required_keys of Some ks \<Rightarrow> ks | None \<Rightarrow> map fst configs);
          seqs = map (\<lambda>k. case map_of configs k of Some ts \<Rightarrow> ts | None \<Rightarrow> []) required;
          n = (case seqs of [] \<Rightarrow> 0 | ts # _ \<Rightarrow> length ts)
      in if 0 < n \<and> list_all (\<lambda>ts. length ts = n) seqs then (True, int n) else (False, 0))"

subsection \<open>Fields, and resolution in the words of the spec\<close>

text \<open>The value at a path of keys in the loaded file, \<open>None\<close> when a key on the path
  does not exist.\<close>

fun file_value :: "pyval \<Rightarrow> string list \<Rightarrow> pyval option" where
  "file_value v [] = Some v"
| "file_value v (k # ks) =
     (case v of
        PDict kvs \<Rightarrow> (case map_of kvs (PStr k) of Some w \<Rightarrow> file_value w ks | None \<Rightarrow> None)
      | _ \<Rightarrow> None)"

text \<open>Section 4.1 of the spec: a variable is present, with its trimmed value, when it
  is set to a string that is not empty after trimming.\<close>

definition env_present :: "environ \<Rightarrow> string \<Rightarrow> string option" where
  "env_present env key =
     (case env key of
        None \<Rightarrow> None
      | Some v \<Rightarrow> (if strip v = [] then None else Some (strip v)))"

text \<open>\<^verbatim>\<open>d[key]\<close> on a value of the configuration.\<close>

definition py_item :: "pyval \<Rightarrow> string \<Rightarrow> error + pyval" where
  "py_item d key =
     (case d of
        PDict kvs \<Rightarrow> (case map_of kvs (PStr key) of Some v \<Rightarrow> Inr v | None \<Rightarrow> Inl KeyError)
      | _ \<Rightarrow> Inl TypeError)"






text \<open>The file value when the key exists, else the default.\<close>

definition file_or_default :: "pyval \<Rightarrow> string list \<Rightarrow> pyval \<Rightarrow> pyval" where
  "file_or_default d path dflt = (case file_value d path of Some v \<Rightarrow> v | None \<Rightarrow> dflt)"


datatype int_field =
    MAX_NEWS_PER_KEYWORD
  | MAX_ACCOUNTS_PER_CHANNEL
  | LOCAL_RETENTION_DAYS
  | REMOTE_RETENTION_DAYS
  | PULL_DAYS

fun int_var :: "int_field \<Rightarrow> string" where
  "int_var MAX_NEWS_PER_KEYWORD = ''MAX_NEWS_PER_KEYWORD''"
| "int_var MAX_ACCOUNTS_PER_CHANNEL = ''MAX_ACCOUNTS_PER_CHANNEL''"
| "int_var LOCAL_RETENTION_DAYS = ''LOCAL_RETENTION_DAYS''"
| "int_var REMOTE_RETENTION_DAYS = ''REMOTE_RETENTION_DAYS''"
| "int_var PULL_DAYS = ''PULL_DAYS''"

fun int_path :: "int_field \<Rightarrow> string list" where
  "int_path MAX_NEWS_PER_KEYWORD = [''report'', ''max_news_per_keyword'']"
| "int_path MAX_ACCOUNTS_PER_CHANNEL = [''notification'', ''max_accounts_per_channel'']"
| "int_path LOCAL_RETENTION_DAYS = [''storage'', ''local'', ''retention_days'']"
| "int_path REMOTE_RETENTION_DAYS = [''storage'', ''remote'', ''retention_days'']"
| "int_path PULL_DAYS = [''storage'', ''pull'', ''days'']"

fun int_default :: "int_field \<Rightarrow> int" where
  "int_default MAX_NEWS_PER_KEYWORD = 0"
| "int_default MAX_ACCOUNTS_PER_CHANNEL = 3"
| "int_default LOCAL_RETENTION_DAYS = 0"
| "int_default REMOTE_RETENTION_DAYS = 0"
| "int_default PULL_DAYS = 7"

fun resolved_int :: "environ \<Rightarrow> pyval \<Rightarrow> int_field \<Rightarrow> error + pyval" where
  "resolved_int env d MAX_NEWS_PER_KEYWORD =
     bind (load_report_config env d) (\<lambda>c. config_item c ''MAX_NEWS_PER_KEYWORD'')"
| "resolved_int env d MAX_ACCOUNTS_PER_CHANNEL =
     bind (load_notification_config env d) (\<lambda>c. config_item c ''MAX_ACCOUNTS_PER_CHANNEL'')"
| "resolved_int env d LOCAL_RETENTION_DAYS =
     bind (load_storage_config env d) (\<lambda>c.
     bind (config_item c ''LOCAL'') (\<lambda>f. py_item f ''RETENTION_DAYS''))"
| "resolved_int env d REMOTE_RETENTION_DAYS =
     bind (load_storage_config env d) (\<lambda>c.
     bind (config_item c ''REMOTE'') (\<lambda>f. py_item f ''RETENTION_DAYS''))"
| "resolved_int env d PULL_DAYS =
     bind (load_storage_config env d) (\<lambda>c.
     bind (config_item c ''PULL'') (\<lambda>f. py_item f ''DAYS''))"

text \<open>Integer resolution as the code does it: a present variable that parses to an
  integer other than 0 wins; everything else falls through.\<close>

definition nonzero_int_override :: "environ \<Rightarrow> pyval \<Rightarrow> int_field \<Rightarrow> pyval" where
  "nonzero_int_override env d f =
     (case Option.bind (env_present env (int_var f)) py_int of
        Some i \<Rightarrow> (if i \<noteq> 0 then PInt i else file_or_default d (int_path f) (PInt (int_default f)))
      | None \<Rightarrow> file_or_default d (int_path f) (PInt (int_default f)))"

subsection \<open>Files that load\<close>

definition is_dict :: "pyval \<Rightarrow> bool" where
  "is_dict v = (case v of PDict _ \<Rightarrow> True | _ \<Rightarrow> False)"

definition is_number :: "pyval \<Rightarrow> bool" where
  "is_number v = (case v of PInt _ \<Rightarrow> True | PBool _ \<Rightarrow> True | PFloat _ \<Rightarrow> True | _ \<Rightarrow> False)"

definition is_str :: "pyval \<Rightarrow> bool" where
  "is_str v = (case v of PStr _ \<Rightarrow> True | _ \<Rightarrow> False)"

text \<open>A section of the file is a mapping or absent.\<close>

definition dict_or_absent :: "pyval \<Rightarrow> string list \<Rightarrow> bool" where
  "dict_or_absent d path = (case file_value d path of Some v \<Rightarrow> is_dict v | None \<Rightarrow> True)"

text \<open>The document is a mapping in which the sections at the given paths are mappings
  or absent.\<close>

definition sections_ok :: "pyval \<Rightarrow> string list list \<Rightarrow> bool" where
  "sections_ok d paths \<longleftrightarrow> is_dict d \<and> list_all (dict_or_absent d) paths"

text \<open>The sections that the loader of a field reads with \<^verbatim>\<open>get\<close>.\<close>

definition storage_sections :: "string list list" where
  "storage_sections =
     [[''storage''], [''storage'', ''formats''], [''storage'', ''local''],
      [''storage'', ''remote''], [''storage'', ''pull'']]"



fun int_sections :: "int_field \<Rightarrow> string list list" where
  "int_sections MAX_NEWS_PER_KEYWORD = [[''report'']]"
| "int_sections MAX_ACCOUNTS_PER_CHANNEL = [[''notification'']]"
| "int_sections LOCAL_RETENTION_DAYS = storage_sections"
| "int_sections REMOTE_RETENTION_DAYS = storage_sections"
| "int_sections PULL_DAYS = storage_sections"

definition account_keys :: "string list" where
  "account_keys =
     [''feishu_url'', ''dingtalk_url'', ''wework_url'', ''telegram_bot_token'',
      ''telegram_chat_id'', ''ntfy_topic'', ''ntfy_token'', ''bark_url'', ''slack_webhook_url'']"

text \<open>
  The document is a mapping; every section and subsection the loaders read is a mapping
  or absent; \<open>max_accounts_per_channel\<close> is a number whose text can be made (an int of at
  most \<open>max_str_digits\<close> digits, a bool or a float) or absent; the fields that are parsed
  into accounts are strings or absent.
\<close>

definition well_formed :: "pyval \<Rightarrow> bool" where
  "well_formed doc \<longleftrightarrow>
     is_dict doc \<and>
     list_all (dict_or_absent doc)
       [[''app''], [''crawler''], [''report''], [''notification''], [''weight''], [''storage''],
        [''notification'', ''push_window''], [''notification'', ''push_window'', ''time_range''],
        [''notification'', ''webhooks''],
        [''storage'', ''formats''], [''storage'', ''local''], [''storage'', ''remote''],
        [''storage'', ''pull'']] \<and>
     (case file_value doc [''notification'', ''max_accounts_per_channel''] of
        Some v \<Rightarrow> is_number v \<and> formats v
      | None \<Rightarrow> True) \<and>
     list_all
       (\<lambda>k. case file_value doc [''notification'', ''webhooks'', k] of
               Some v \<Rightarrow> is_str v
             | None \<Rightarrow> True)
       account_keys"

subsection \<open>Reading the summary\<close>

text \<open>The entries of the printed summary.\<close>

fun printed_entries :: "printed list \<Rightarrow> entry list" where
  "printed_entries [] = []"
| "printed_entries (SourcesLine es # rest) = es @ printed_entries rest"
| "printed_entries (_ # rest) = printed_entries rest"

text \<open>The parsed tokens of a field of the configuration.\<close>

definition tokens_of :: "parser \<Rightarrow> config \<Rightarrow> string \<Rightarrow> string list" where
  "tokens_of parse c key =
     (case config_item c key of
        Inr v \<Rightarrow> (case parse v of Inr ts \<Rightarrow> ts | Inl _ \<Rightarrow> [])
      | Inl _ \<Rightarrow> [])"

text \<open>
  The number of accounts of a channel before the cap: the number of parsed tokens for a
  channel with one field and for ntfy without tokens, the count the validator returns
  for the paired channels. The email channel has none.
\<close>

fun account_total :: "parser \<Rightarrow> validator \<Rightarrow> config \<Rightarrow> channel \<Rightarrow> int option" where
  "account_total parse validate c Feishu =
     Some (int (length (tokens_of parse c ''FEISHU_WEBHOOK_URL'')))"
| "account_total parse validate c Dingtalk =
     Some (int (length (tokens_of parse c ''DINGTALK_WEBHOOK_URL'')))"
| "account_total parse validate c Wework =
     Some (int (length (tokens_of parse c ''WEWORK_WEBHOOK_URL'')))"
| "account_total parse validate c Telegram =
     Some (snd (validate [(''bot_token'', tokens_of parse c ''TELEGRAM_BOT_TOKEN''),
                          (''chat_id'', tokens_of parse c ''TELEGRAM_CHAT_ID'')]
                  ''Telegram'' (Some [''bot_token'', ''chat_id''])))"
| "account_total parse validate c Email = None"
| "account_total parse validate c Ntfy =
     Some (if tokens_of parse c ''NTFY_TOKEN'' \<noteq> []
           then snd (validate [(''topic'', tokens_of parse c ''NTFY_TOPIC''),
                               (''token'', tokens_of parse c ''NTFY_TOKEN'')] ''ntfy'' None)
           else int (length (tokens_of parse c ''NTFY_TOPIC'')))"
| "account_total parse validate c Bark = Some (int (length (tokens_of parse c ''BARK_URL'')))"
| "account_total parse validate c Slack =
     Some (int (length (tokens_of parse c ''SLACK_WEBHOOK_URL'')))"

text \<open>The fields of the configuration whose truth the block of a channel tests.\<close>

fun channel_fields :: "channel \<Rightarrow> string list" where
  "channel_fields Feishu = [''FEISHU_WEBHOOK_URL'']"
| "channel_fields Dingtalk = [''DINGTALK_WEBHOOK_URL'']"
| "channel_fields Wework = [''WEWORK_WEBHOOK_URL'']"
| "channel_fields Telegram = [''TELEGRAM_BOT_TOKEN'', ''TELEGRAM_CHAT_ID'']"
| "channel_fields Email = [''EMAIL_FROM'', ''EMAIL_PASSWORD'', ''EMAIL_TO'']"
| "channel_fields Ntfy = [''NTFY_SERVER_URL'', ''NTFY_TOPIC'']"
| "channel_fields Bark = [''BARK_URL'']"
| "channel_fields Slack = [''SLACK_WEBHOOK_URL'']"

text \<open>A field of the configuration is set to a truthy value.\<close>

definition field_truthy :: "config \<Rightarrow> string \<Rightarrow> bool" where
  "field_truthy c key = (case map_of c key of Some v \<Rightarrow> truthy v | None \<Rightarrow> False)"

text \<open>The variable whose presence the block of a channel reports as the source.\<close>

fun source_var :: "channel \<Rightarrow> string" where
  "source_var Feishu = ''FEISHU_WEBHOOK_URL''"
| "source_var Dingtalk = ''DINGTALK_WEBHOOK_URL''"
| "source_var Wework = ''WEWORK_WEBHOOK_URL''"
| "source_var Telegram = ''TELEGRAM_BOT_TOKEN''"
| "source_var Email = ''EMAIL_FROM''"
| "source_var Ntfy = ''NTFY_SERVER_URL''"
| "source_var Bark = ''BARK_URL''"
| "source_var Slack = ''SLACK_WEBHOOK_URL''"

text \<open>The entries of the webhook section whose default is the empty string: the
  variable, which is also the key of the configuration, and the key of the file.\<close>

definition webhook_fields :: "(string \<times> string) list" where
  "webhook_fields =
     [(''FEISHU_WEBHOOK_URL'', ''feishu_url''),
      (''DINGTALK_WEBHOOK_URL'', ''dingtalk_url''),
      (''WEWORK_WEBHOOK_URL'', ''wework_url''),
      (''TELEGRAM_BOT_TOKEN'', ''telegram_bot_token''),
      (''TELEGRAM_CHAT_ID'', ''telegram_chat_id''),
      (''EMAIL_FROM'', ''email_from''),
      (''EMAIL_PASSWORD'', ''email_password''),
      (''EMAIL_TO'', ''email_to''),
      (''EMAIL_SMTP_SERVER'', ''email_smtp_server''),
      (''EMAIL_SMTP_PORT'', ''email_smtp_port''),
      (''NTFY_TOPIC'', ''ntfy_topic''),
      (''NTFY_TOKEN'', ''ntfy_token''),
      (''BARK_URL'', ''bark_url''),
      (''SLACK_WEBHOOK_URL'', ''slack_webhook_url'')]"

text \<open>
  A configuration with the fields the summary reads and no channel configured: a maximum
  of 3 accounts, the default ntfy server, and every other field the empty string.
\<close>

definition unconfigured :: config where
  "unconfigured =
     [(''MAX_ACCOUNTS_PER_CHANNEL'', PInt 3),
      (''FEISHU_WEBHOOK_URL'', PStr []),
      (''DINGTALK_WEBHOOK_URL'', PStr []),
      (''WEWORK_WEBHOOK_URL'', PStr []),
      (''TELEGRAM_BOT_TOKEN'', PStr []),
      (''TELEGRAM_CHAT_ID'', PStr []),
      (''EMAIL_FROM'', PStr []),
      (''EMAIL_PASSWORD'', PStr []),
      (''EMAIL_TO'', PStr []),
      (''NTFY_SERVER_URL'', PStr ''https://ntfy.sh''),
      (''NTFY_TOPIC'', PStr []),
      (''NTFY_TOKEN'', PStr []),
      (''BARK_URL'', PStr []),
      (''SLACK_WEBHOOK_URL'', PStr [])]"

text \<open>A computation returns: it raises nothing.\<close>

definition returns :: "error + 'a \<Rightarrow> bool" where
  "returns m = (case m of Inr _ \<Rightarrow> True | Inl _ \<Rightarrow> False)"

text \<open>The path \<open>load_config\<close> opens.\<close>

definition effective_path :: "environ \<Rightarrow> string option \<Rightarrow> string" where
  "effective_path env config_path =
     (case config_path of
        None \<Rightarrow> (case env ''CONFIG_PATH'' of Some p \<Rightarrow> p | None \<Rightarrow> ''config/config.yaml'')
      | Some p \<Rightarrow> p)"

section \<open>Properties\<close>

subsection \<open>Auxiliary facts\<close>

lemma bind_Inr: "bind m f = Inr v \<longleftrightarrow> (\<exists>x. m = Inr x \<and> f x = Inr v)"
  by (cases m) (simp_all add: bind_def)

lemma dict_display_Inr: "dict_display es = Inr c \<Longrightarrow> es = map (\<lambda>(k, v). (k, Inr v)) c"
proof (induction es arbitrary: c)
  case Nil
  then show ?case by simp
next
  case (Cons p es)
  obtain k e where p: "p = (k, e)" by (cases p)
  from Cons.prems p obtain v d where "e = Inr v" "dict_display es = Inr d" "c = (k, v) # d"
    by (auto simp: bind_Inr)
  with Cons.IH[of d] p show ?case by simp
qed

lemma dict_display_item:
  assumes "dict_display es = Inr c"
  shows "config_item c k = Inr v \<longleftrightarrow> map_of es k = Some (Inr v)"
proof -
  have "map_of (map (\<lambda>(k, v). (k, Inr v :: error + pyval)) c) k = map_option Inr (map_of c k)"
    by (induction c) auto
  with dict_display_Inr[OF assms] show ?thesis
    by (auto simp: config_item_def split: option.splits)
qed

lemma dict_display_itemD:
  "dict_display es = Inr c \<Longrightarrow> config_item c k = Inr v \<Longrightarrow> map_of es k = Some (Inr v)"
  by (simp add: dict_display_item)

lemma as_dict_item: "py_item (as_dict c) k = Inr v \<longleftrightarrow> config_item c k = Inr v"
proof -
  have "map_of (map (\<lambda>(k, v). (PStr k, v)) c) (PStr k) = map_of c k"
    by (induction c) auto
  then show ?thesis
    by (simp add: py_item_def as_dict_def config_item_def split: option.splits)
qed

lemma nested_display_itemD:
  assumes "map_sum id as_dict (dict_display es) = Inr f" and "py_item f k = Inr v"
  shows "map_of es k = Some (Inr v)"
proof -
  from assms(1) obtain c where c: "dict_display es = Inr c" and f: "f = as_dict c"
    by (cases "dict_display es") auto
  from assms(2) show ?thesis unfolding f as_dict_item by (rule dict_display_itemD[OF c])
qed


lemma file_or_default_section:
  "py_get d k (PDict []) = Inr s \<Longrightarrow> p \<noteq> [] \<Longrightarrow>
     file_or_default d (k # p) dflt = file_or_default s p dflt"
  by (cases p) (auto simp: py_get_def file_or_default_def split: pyval.splits option.splits)

lemma file_or_default_key:
  "py_get s k dflt = Inr v \<Longrightarrow> file_or_default s [k] dflt = v"
  by (auto simp: py_get_def file_or_default_def split: pyval.splits option.splits)


lemma py_or_env_int:
  "py_or (PInt (get_env_int env var 0)) y =
     (case Option.bind (env_present env var) py_int of
        Some i \<Rightarrow> (if i \<noteq> 0 then Inr (PInt i) else y)
      | None \<Rightarrow> y)"
  by (cases "env var")
     (auto simp: py_or_def get_env_int_def env_present_def environ_get_def strip_def Let_def
        split: option.splits)

lemma override_intI:
  assumes "py_or (PInt (get_env_int env (int_var f) 0)) (py_get s k (PInt (int_default f))) = Inr v"
    and "file_or_default d (int_path f) (PInt (int_default f)) =
         file_or_default s [k] (PInt (int_default f))"
  shows "v = nonzero_int_override env d f"
  using assms
  by (auto simp: nonzero_int_override_def py_or_env_int file_or_default_key
      split: option.splits if_splits)

lemma resolved_int_value:
  assumes "resolved_int env d f = Inr v"
  shows "v = nonzero_int_override env d f"
proof (cases f)
  case MAX_NEWS_PER_KEYWORD
  from assms[unfolded MAX_NEWS_PER_KEYWORD] obtain s where
    "py_get d ''report'' (PDict []) = Inr s"
    "py_or (PInt (get_env_int env ''MAX_NEWS_PER_KEYWORD'' 0))
       (py_get s ''max_news_per_keyword'' (PInt 0)) = Inr v"
    by (auto simp del: dict_display.simps simp: bind_Inr load_report_config_def Let_def
        dest!: dict_display_itemD)
  then show ?thesis unfolding MAX_NEWS_PER_KEYWORD
    by (intro override_intI[where s=s and k="''max_news_per_keyword''"])
       (simp_all add: file_or_default_section)
next
  case MAX_ACCOUNTS_PER_CHANNEL
  from assms[unfolded MAX_ACCOUNTS_PER_CHANNEL] obtain s where
    "py_get d ''notification'' (PDict []) = Inr s"
    "py_or (PInt (get_env_int env ''MAX_ACCOUNTS_PER_CHANNEL'' 0))
       (py_get s ''max_accounts_per_channel'' (PInt 3)) = Inr v"
    by (auto simp del: dict_display.simps simp: bind_Inr load_notification_config_def Let_def
        dest!: dict_display_itemD)
  then show ?thesis unfolding MAX_ACCOUNTS_PER_CHANNEL
    by (intro override_intI[where s=s and k="''max_accounts_per_channel''"])
       (simp_all add: file_or_default_section)
next
  case LOCAL_RETENTION_DAYS
  from assms[unfolded LOCAL_RETENTION_DAYS] obtain s0 s where
    "py_get d ''storage'' (PDict []) = Inr s0"
    "py_get s0 ''local'' (PDict []) = Inr s"
    "py_or (PInt (get_env_int env ''LOCAL_RETENTION_DAYS'' 0))
       (py_get s ''retention_days'' (PInt 0)) = Inr v"
    by (auto simp del: dict_display.simps simp: bind_Inr load_storage_config_def Let_def
        dest!: dict_display_itemD nested_display_itemD)
  then show ?thesis unfolding LOCAL_RETENTION_DAYS
    by (intro override_intI[where s=s and k="''retention_days''"])
       (simp_all add: file_or_default_section)
next
  case REMOTE_RETENTION_DAYS
  from assms[unfolded REMOTE_RETENTION_DAYS] obtain s0 s where
    "py_get d ''storage'' (PDict []) = Inr s0"
    "py_get s0 ''remote'' (PDict []) = Inr s"
    "py_or (PInt (get_env_int env ''REMOTE_RETENTION_DAYS'' 0))
       (py_get s ''retention_days'' (PInt 0)) = Inr v"
    by (auto simp del: dict_display.simps simp: bind_Inr load_storage_config_def Let_def
        dest!: dict_display_itemD nested_display_itemD)
  then show ?thesis unfolding REMOTE_RETENTION_DAYS
    by (intro override_intI[where s=s and k="''retention_days''"])
       (simp_all add: file_or_default_section)
next
  case PULL_DAYS
  from assms[unfolded PULL_DAYS] obtain s0 s where
    "py_get d ''storage'' (PDict []) = Inr s0"
    "py_get s0 ''pull'' (PDict []) = Inr s"
    "py_or (PInt (get_env_int env ''PULL_DAYS'' 0)) (py_get s ''days'' (PInt 7)) = Inr v"
    by (auto simp del: dict_display.simps simp: bind_Inr load_storage_config_def Let_def
        dest!: dict_display_itemD nested_display_itemD)
  then show ?thesis unfolding PULL_DAYS
    by (intro override_intI[where s=s and k="''days''"])
       (simp_all add: file_or_default_section)
qed

lemma strip_Nil: "strip [] = []"
  by (simp add: strip_def)





lemma py_or_env_str:
  "py_or (PStr (get_env_str env var [])) y =
     (case env_present env var of Some s \<Rightarrow> Inr (PStr s) | None \<Rightarrow> y)"
  by (cases "env var")
     (auto simp: py_or_def get_env_str_def env_present_def environ_get_def strip_Nil Let_def)

lemma dict_display_lookup:
  assumes "dict_display es = Inr c"
  shows "map_of es k = map_option Inr (map_of c k)"
proof -
  have "map_of (map (\<lambda>(k, v). (k, Inr v :: error + pyval)) c) k = map_option Inr (map_of c k)"
    by (induction c) auto
  with dict_display_Inr[OF assms] show ?thesis by simp
qed

lemma webhook_item:
  assumes "load_webhook_config env d = Inr c" and "(var, key) \<in> set webhook_fields"
  shows "\<exists>n w v. py_get d ''notification'' (PDict []) = Inr n \<and>
           py_get n ''webhooks'' (PDict []) = Inr w \<and>
           webhook_field env w var key = Inr v \<and> map_of c var = Some v"
proof -
  from assms(1) obtain n w es where n: "py_get d ''notification'' (PDict []) = Inr n"
    and w: "py_get n ''webhooks'' (PDict []) = Inr w"
    and es: "dict_display es = Inr c"
    and l: "\<forall>(var, key) \<in> set webhook_fields. map_of es var = Some (webhook_field env w var key)"
    by (auto simp del: dict_display.simps simp: load_webhook_config_def bind_Inr webhook_fields_def)
  from l assms(2) have "map_of es var = Some (webhook_field env w var key)" by blast
  with dict_display_lookup[OF es, of var] n w show ?thesis
    by (cases "map_of c var") auto
qed

lemma ntfy_item:
  assumes "load_webhook_config env d = Inr c"
  shows "\<exists>n w v. py_get d ''notification'' (PDict []) = Inr n \<and>
           py_get n ''webhooks'' (PDict []) = Inr w \<and>
           bind (py_or (PStr (get_env_str env ''NTFY_SERVER_URL'' []))
                   (py_get w ''ntfy_server_url'' PNone))
             (\<lambda>v. py_or v (Inr (PStr ''https://ntfy.sh''))) = Inr v \<and>
           map_of c ''NTFY_SERVER_URL'' = Some v"
proof -
  from assms obtain n w es where n: "py_get d ''notification'' (PDict []) = Inr n"
    and w: "py_get n ''webhooks'' (PDict []) = Inr w"
    and es: "dict_display es = Inr c"
    and l: "map_of es ''NTFY_SERVER_URL'' =
           Some (bind (py_or (PStr (get_env_str env ''NTFY_SERVER_URL'' []))
                   (py_get w ''ntfy_server_url'' PNone))
             (\<lambda>v. py_or v (Inr (PStr ''https://ntfy.sh''))))"
    by (auto simp del: dict_display.simps simp: load_webhook_config_def bind_Inr)
  with dict_display_lookup[OF es, of "''NTFY_SERVER_URL''"] n w show ?thesis
    by (cases "map_of c ''NTFY_SERVER_URL''") auto
qed


lemma file_value_section:
  "py_get d k (PDict []) = Inr s \<Longrightarrow> p \<noteq> [] \<Longrightarrow> file_value d (k # p) = file_value s p"
  by (cases p) (auto simp: py_get_def split: pyval.splits option.splits)

lemma webhook_file_value:
  assumes "py_get d ''notification'' (PDict []) = Inr n" and "py_get n ''webhooks'' (PDict []) = Inr w"
  shows "file_value d [''notification'', ''webhooks'', key] = file_value w [key]"
  using assms by (simp del: file_value.simps add: file_value_section)

lemma py_get_file_value:
  "py_get w k dflt = Inr v \<Longrightarrow> v = (case file_value w [k] of Some x \<Rightarrow> x | None \<Rightarrow> dflt)"
  by (auto simp: py_get_def split: pyval.splits option.splits)

lemma config_item_update:
  "k' \<noteq> k \<Longrightarrow> config_item (AList.update k x c) k' = config_item c k'"
  by (simp add: config_item_def update_conv')

lemma all_truthy_Inr:
  "all_truthy c ks = Inr b \<Longrightarrow> b = (\<forall>k \<in> set ks. field_truthy c k)"
  by (induction ks arbitrary: b)
     (auto simp: bind_Inr config_item_def field_truthy_def split: option.splits if_splits)

lemma all_truthy_True:
  "\<forall>k \<in> set ks. field_truthy c k \<Longrightarrow> all_truthy c ks = Inr True"
  by (induction ks)
     (auto simp: bind_def config_item_def field_truthy_def split: option.splits)

lemma count_text_Inr: "count_text a c = Inr n \<longleftrightarrow> n = c \<and> (c = PInt a \<or> formats c)"
  by (auto simp: count_text_def format_value_def)

lemma single_channel_entries:
  assumes "single_channel parse env c mx ch key = Inr es"
  shows "es = [] \<or>
         (field_truthy c key \<and>
          (\<exists>n. py_min (int (length (tokens_of parse c key))) mx = Inr n \<and>
               es = [\<lparr>channel = ch, source = source_of env key, count = Some n\<rparr>]))"
  using assms
  by (auto simp del: all_truthy.simps simp: single_channel_def bind_Inr tokens_of_def
      count_text_Inr split: if_splits dest!: all_truthy_Inr)

lemma telegram_channel_entries:
  assumes "telegram_channel parse validate env c mx = Inr es"
  shows "es = [] \<or>
         (field_truthy c ''TELEGRAM_BOT_TOKEN'' \<and> field_truthy c ''TELEGRAM_CHAT_ID'' \<and>
          (\<exists>t n. account_total parse validate c Telegram = Some t \<and> 0 < t \<and>
               py_min t mx = Inr n \<and>
               es = [\<lparr>channel = Telegram, source = source_of env ''TELEGRAM_BOT_TOKEN'',
                      count = Some n\<rparr>]))"
proof (cases "es = []")
  case True
  then show ?thesis by simp
next
  case False
  from assms obtain go where go: "all_truthy c [''TELEGRAM_BOT_TOKEN'', ''TELEGRAM_CHAT_ID''] = Inr go"
    by (auto simp del: all_truthy.simps simp: telegram_channel_def bind_Inr)
  with assms False have "go"
    by (cases go) (auto simp del: all_truthy.simps simp: telegram_channel_def bind_def)
  with all_truthy_Inr[OF go] have ft: "field_truthy c ''TELEGRAM_BOT_TOKEN''"
    "field_truthy c ''TELEGRAM_CHAT_ID''" by auto
  from assms go \<open>go\<close> obtain tv tokens cv chat_ids where
    tv: "config_item c ''TELEGRAM_BOT_TOKEN'' = Inr tv" "parse tv = Inr tokens"
    and cv: "config_item c ''TELEGRAM_CHAT_ID'' = Inr cv" "parse cv = Inr chat_ids"
    and r: "(case validate [(''bot_token'', tokens), (''chat_id'', chat_ids)] ''Telegram''
              (Some [''bot_token'', ''chat_id'']) of
         (valid, n) \<Rightarrow>
           if valid \<and> n > 0 then
             bind (py_min n mx) (\<lambda>c.
             bind (count_text n c) (\<lambda>n.
             Inr [\<lparr>channel = Telegram, source = source_of env ''TELEGRAM_BOT_TOKEN'',
                   count = Some n\<rparr>]))
           else Inr []) = Inr es"
    by (auto simp del: all_truthy.simps simp: telegram_channel_def bind_Inr)
  obtain valid t where vt: "validate [(''bot_token'', tokens), (''chat_id'', chat_ids)] ''Telegram''
              (Some [''bot_token'', ''chat_id'']) = (valid, t)"
    by (cases "validate [(''bot_token'', tokens), (''chat_id'', chat_ids)] ''Telegram''
              (Some [''bot_token'', ''chat_id''])")
  from tv cv vt have tot: "account_total parse validate c Telegram = Some t"
    by (simp add: tokens_of_def)
  from r vt False obtain n where "0 < t" "py_min t mx = Inr n"
    "es = [\<lparr>channel = Telegram, source = source_of env ''TELEGRAM_BOT_TOKEN'', count = Some n\<rparr>]"
    by (auto simp: bind_Inr count_text_Inr split: if_splits)
  with ft tot show ?thesis by blast
qed

lemma email_channel_entries:
  assumes "email_channel env c = Inr es"
  shows "(es = [] \<and> \<not> (\<forall>k \<in> set (channel_fields Email). field_truthy c k)) \<or>
         ((\<forall>k \<in> set (channel_fields Email). field_truthy c k) \<and>
          es = [\<lparr>channel = Email, source = source_of env ''EMAIL_FROM'', count = None\<rparr>])"
  using assms
  by (auto simp del: all_truthy.simps simp: email_channel_def bind_Inr
      split: if_splits dest!: all_truthy_Inr)

lemma ntfy_channel_entries:
  assumes "ntfy_channel parse validate env c mx = Inr es"
  shows "es = [] \<or>
         (field_truthy c ''NTFY_SERVER_URL'' \<and> field_truthy c ''NTFY_TOPIC'' \<and>
          (\<exists>t n. account_total parse validate c Ntfy = Some t \<and>
               (tokens_of parse c ''NTFY_TOKEN'' \<noteq> [] \<longrightarrow> 0 < t) \<and>
               py_min t mx = Inr n \<and>
               es = [\<lparr>channel = Ntfy, source = source_of env ''NTFY_SERVER_URL'',
                      count = Some n\<rparr>]))"
proof (cases "es = []")
  case True
  then show ?thesis by simp
next
  case False
  from assms obtain go where go: "all_truthy c [''NTFY_SERVER_URL'', ''NTFY_TOPIC''] = Inr go"
    by (auto simp del: all_truthy.simps simp: ntfy_channel_def bind_Inr)
  with assms False have "go"
    by (cases go) (auto simp del: all_truthy.simps simp: ntfy_channel_def bind_def)
  with all_truthy_Inr[OF go] have ft: "field_truthy c ''NTFY_SERVER_URL''"
    "field_truthy c ''NTFY_TOPIC''" by auto
  from assms go \<open>go\<close> obtain tv topics kv tokens where
    tv: "config_item c ''NTFY_TOPIC'' = Inr tv" "parse tv = Inr topics"
    and kv: "config_item c ''NTFY_TOKEN'' = Inr kv" "parse kv = Inr tokens"
    and r: "(if tokens \<noteq> [] then
         (case validate [(''topic'', topics), (''token'', tokens)] ''ntfy'' None of
            (valid, n) \<Rightarrow>
              if valid \<and> n > 0 then
                bind (py_min n mx) (\<lambda>c.
                bind (count_text n c) (\<lambda>n.
                Inr [\<lparr>channel = Ntfy, source = source_of env ''NTFY_SERVER_URL'',
                      count = Some n\<rparr>]))
              else Inr [])
       else
         bind (py_min (int (length topics)) mx) (\<lambda>n.
         bind (count_text (int (length topics)) n) (\<lambda>n.
         Inr [\<lparr>channel = Ntfy, source = source_of env ''NTFY_SERVER_URL'',
               count = Some n\<rparr>]))) = Inr es"
    by (auto simp del: all_truthy.simps simp: ntfy_channel_def bind_Inr)
  from tv kv have tk: "tokens_of parse c ''NTFY_TOPIC'' = topics"
    "tokens_of parse c ''NTFY_TOKEN'' = tokens"
    by (simp_all add: tokens_of_def)
  show ?thesis
  proof (cases "tokens = []")
    case True
    with r obtain n where "py_min (int (length topics)) mx = Inr n"
      "es = [\<lparr>channel = Ntfy, source = source_of env ''NTFY_SERVER_URL'', count = Some n\<rparr>]"
      by (auto simp: bind_Inr count_text_Inr)
    with ft tk True show ?thesis by simp
  next
    case nonempty: False
    obtain valid t where vt:
      "validate [(''topic'', topics), (''token'', tokens)] ''ntfy'' None = (valid, t)"
      by (cases "validate [(''topic'', topics), (''token'', tokens)] ''ntfy'' None")
    from r vt False nonempty obtain n where "0 < t" "py_min t mx = Inr n"
      "es = [\<lparr>channel = Ntfy, source = source_of env ''NTFY_SERVER_URL'', count = Some n\<rparr>]"
      by (auto simp: bind_Inr count_text_Inr split: if_splits)
    with ft tk nonempty vt show ?thesis by simp
  qed
qed


lemma py_min_int: "py_min a (PInt m) = Inr (PInt (min a m))"
  by (simp add: py_min_def py_lt_int_def bind_def min_def)

lemma notification_sources_Inr:
  assumes "notification_sources parse validate env c mx = Inr es"
  obtains e1 e2 e3 e4 e5 e6 e7 e8 where
    "single_channel parse env c mx Feishu ''FEISHU_WEBHOOK_URL'' = Inr e1"
    "single_channel parse env c mx Dingtalk ''DINGTALK_WEBHOOK_URL'' = Inr e2"
    "single_channel parse env c mx Wework ''WEWORK_WEBHOOK_URL'' = Inr e3"
    "telegram_channel parse validate env c mx = Inr e4"
    "email_channel env c = Inr e5"
    "ntfy_channel parse validate env c mx = Inr e6"
    "single_channel parse env c mx Bark ''BARK_URL'' = Inr e7"
    "single_channel parse env c mx Slack ''SLACK_WEBHOOK_URL'' = Inr e8"
    "es = e1 @ e2 @ e3 @ e4 @ e5 @ e6 @ e7 @ e8"
  using assms by (auto simp: notification_sources_def bind_Inr)

text \<open>What every entry of the summary satisfies.\<close>

lemma summary_entry:
  assumes "notification_sources parse validate env c mx = Inr es" and "e \<in> set es"
  shows "(\<forall>k \<in> set (channel_fields (channel e)). field_truthy c k) \<and>
         source e = source_of env (source_var (channel e)) \<and>
         (case account_total parse validate c (channel e) of
            None \<Rightarrow> count e = None
          | Some t \<Rightarrow> (\<exists>n. py_min t mx = Inr n \<and> count e = Some n) \<and>
              (channel e = Telegram \<or>
               channel e = Ntfy \<and> tokens_of parse c ''NTFY_TOKEN'' \<noteq> [] \<longrightarrow> 0 < t))"
proof -
  from assms(1) obtain e1 e2 e3 e4 e5 e6 e7 e8 where
    b: "single_channel parse env c mx Feishu ''FEISHU_WEBHOOK_URL'' = Inr e1"
    "single_channel parse env c mx Dingtalk ''DINGTALK_WEBHOOK_URL'' = Inr e2"
    "single_channel parse env c mx Wework ''WEWORK_WEBHOOK_URL'' = Inr e3"
    "telegram_channel parse validate env c mx = Inr e4"
    "email_channel env c = Inr e5"
    "ntfy_channel parse validate env c mx = Inr e6"
    "single_channel parse env c mx Bark ''BARK_URL'' = Inr e7"
    "single_channel parse env c mx Slack ''SLACK_WEBHOOK_URL'' = Inr e8"
    and es: "es = e1 @ e2 @ e3 @ e4 @ e5 @ e6 @ e7 @ e8"
    by (rule notification_sources_Inr)
  from assms(2) es consider "e \<in> set e1" | "e \<in> set e2" | "e \<in> set e3" | "e \<in> set e4"
    | "e \<in> set e5" | "e \<in> set e6" | "e \<in> set e7" | "e \<in> set e8"
    by auto
  then show ?thesis
  proof cases
    case 1
    with single_channel_entries[OF b(1)] show ?thesis by auto
  next
    case 2
    with single_channel_entries[OF b(2)] show ?thesis by auto
  next
    case 3
    with single_channel_entries[OF b(3)] show ?thesis by auto
  next
    case 4
    with telegram_channel_entries[OF b(4)] show ?thesis by auto
  next
    case 5
    with email_channel_entries[OF b(5)] show ?thesis by auto
  next
    case 6
    with ntfy_channel_entries[OF b(6)] show ?thesis by auto
  next
    case 7
    with single_channel_entries[OF b(7)] show ?thesis by auto
  next
    case 8
    with single_channel_entries[OF b(8)] show ?thesis by auto
  qed
qed

lemma block_channel:
  "single_channel parse env c mx ch key = Inr es \<Longrightarrow> e \<in> set es \<Longrightarrow> channel e = ch"
  "telegram_channel parse validate env c mx = Inr es \<Longrightarrow> e \<in> set es \<Longrightarrow> channel e = Telegram"
  "ntfy_channel parse validate env c mx = Inr es \<Longrightarrow> e \<in> set es \<Longrightarrow> channel e = Ntfy"
  using single_channel_entries[of parse env c mx ch key es]
    telegram_channel_entries[of parse validate env c mx es]
    ntfy_channel_entries[of parse validate env c mx es]
  by auto

lemma email_channel_listed:
  assumes "notification_sources parse validate env c mx = Inr es"
  shows "Email \<in> channel ` set es \<longleftrightarrow> (\<forall>k \<in> set (channel_fields Email). field_truthy c k)"
proof -
  from assms obtain e1 e2 e3 e4 e5 e6 e7 e8 where
    b: "single_channel parse env c mx Feishu ''FEISHU_WEBHOOK_URL'' = Inr e1"
    "single_channel parse env c mx Dingtalk ''DINGTALK_WEBHOOK_URL'' = Inr e2"
    "single_channel parse env c mx Wework ''WEWORK_WEBHOOK_URL'' = Inr e3"
    "telegram_channel parse validate env c mx = Inr e4"
    "email_channel env c = Inr e5"
    "ntfy_channel parse validate env c mx = Inr e6"
    "single_channel parse env c mx Bark ''BARK_URL'' = Inr e7"
    "single_channel parse env c mx Slack ''SLACK_WEBHOOK_URL'' = Inr e8"
    and es: "es = e1 @ e2 @ e3 @ e4 @ e5 @ e6 @ e7 @ e8"
    by (rule notification_sources_Inr)
  have "Email \<notin> channel ` set e1" "Email \<notin> channel ` set e2" "Email \<notin> channel ` set e3"
    "Email \<notin> channel ` set e4" "Email \<notin> channel ` set e6" "Email \<notin> channel ` set e7"
    "Email \<notin> channel ` set e8"
    using b by (auto dest: block_channel)
  then have "Email \<in> channel ` set es \<longleftrightarrow> Email \<in> channel ` set e5"
    unfolding es by auto
  also have "\<dots> \<longleftrightarrow> (\<forall>k \<in> set (channel_fields Email). field_truthy c k)"
    using email_channel_entries[OF b(5)] by auto
  finally show ?thesis .
qed

lemma print_Inr:
  assumes "print_notification_sources parse validate env c = Inr out"
  obtains mx es where "map_of c ''MAX_ACCOUNTS_PER_CHANNEL'' = Some mx"
    and "notification_sources parse validate env c mx = Inr es"
    and "printed_entries out = es"
    and "NoChannelLine \<in> set out \<longleftrightarrow> es = []"
    and "es \<noteq> [] \<Longrightarrow> out = [SourcesLine es, MaxAccountsLine mx]"
  using assms
  by (auto simp: print_notification_sources_def bind_Inr config_item_def format_value_def
      split: option.splits if_splits)

lemma all_truthy_update:
  "k \<notin> set ks \<Longrightarrow> all_truthy (AList.update k x c) ks = all_truthy c ks"
  by (induction ks) (auto simp: config_item_update cong: if_cong)

lemma print_update:
  assumes "k = ''EMAIL_SMTP_SERVER'' \<or> k = ''EMAIL_SMTP_PORT''"
  shows "print_notification_sources parse validate env (AList.update k x c) =
         print_notification_sources parse validate env c"
proof -
  have item: "config_item (AList.update k x c) k' = config_item c k'"
    if "k' \<noteq> ''EMAIL_SMTP_SERVER''" "k' \<noteq> ''EMAIL_SMTP_PORT''" for k'
    using assms that by (auto simp: config_item_update)
  have truthy: "all_truthy (AList.update k x c) ks = all_truthy c ks"
    if "''EMAIL_SMTP_SERVER'' \<notin> set ks" "''EMAIL_SMTP_PORT'' \<notin> set ks" for ks
    using assms that by (auto simp: all_truthy_update)
  have single: "single_channel parse env (AList.update k x c) mx ch key =
      single_channel parse env c mx ch key"
    if "key \<noteq> ''EMAIL_SMTP_SERVER''" "key \<noteq> ''EMAIL_SMTP_PORT''" for mx ch key
    using that by (simp del: all_truthy.simps add: single_channel_def item truthy cong: if_cong)
  have telegram: "telegram_channel parse validate env (AList.update k x c) mx =
      telegram_channel parse validate env c mx" for mx
    by (simp del: all_truthy.simps add: telegram_channel_def item truthy cong: if_cong)
  have email: "email_channel env (AList.update k x c) = email_channel env c"
    by (simp del: all_truthy.simps add: email_channel_def item truthy cong: if_cong)
  have ntfy: "ntfy_channel parse validate env (AList.update k x c) mx =
      ntfy_channel parse validate env c mx" for mx
    by (simp del: all_truthy.simps add: ntfy_channel_def item truthy cong: if_cong)
  show ?thesis
    by (simp del: collect.simps
        add: print_notification_sources_def notification_sources_def item single telegram
          email ntfy)
qed


lemma config_item_Nil: "config_item [] k = Inl KeyError"
  by (simp add: config_item_def)

lemma config_item_Cons:
  "config_item ((k, v) # c) k' = (if k' = k then Inr v else config_item c k')"
  by (simp add: config_item_def)

lemma digit_formats: "0 \<le> i \<Longrightarrow> i < 10 \<Longrightarrow> i < (10::int) ^ max_str_digits"
proof -
  have "(10::int) ^ 1 \<le> 10 ^ max_str_digits"
    by (rule power_increasing) (simp_all add: max_str_digits_def)
  then show "i < 10 \<Longrightarrow> i < (10::int) ^ max_str_digits" by simp
qed

lemmas loader_defs =
  load_config_def safe_load_def load_app_config_def load_crawler_config_def
  load_report_config_def load_notification_config_def load_push_window_config_def
  load_weight_config_def load_storage_config_def load_webhook_config_def webhook_field_def
  print_notification_sources_def notification_sources_def single_channel_def
  telegram_channel_def email_channel_def ntfy_channel_def source_of_def
  bind_def py_get_def py_or_def if_not_none_def config_item_Nil config_item_Cons
  dict_update_def as_dict_def py_min_def py_lt_int_def get_env_bool_def get_env_int_def
  get_env_str_def environ_get_def strip_def is_space_def lower_def count_text_def
  format_value_def digit_formats

lemmas parser_defs =
  parse_account_value_def parse_multi_account_config_def validate_paired_configs_def

lemma returns_iff: "returns m \<longleftrightarrow> (\<exists>v. m = Inr v)"
  by (cases m) (simp_all add: returns_def)

lemma returns_Inr [simp]: "returns (Inr v)"
  by (simp add: returns_def)

lemma bind_return: "bind (Inr x) f = f x"
  by (simp add: bind_def)

lemma returns_py_get: "returns (py_get (PDict kvs) k d)"
  by (simp add: py_get_def)

lemma returns_py_or: "returns (py_or x y) \<longleftrightarrow> truthy x \<or> returns y"
  by (simp add: py_or_def)

lemma returns_if_not_none: "returns (if_not_none x y) \<longleftrightarrow> x \<noteq> None \<or> returns y"
  by (simp add: if_not_none_def split: option.splits)

lemma returns_bind_py_or: "returns (bind m (\<lambda>v. py_or v (Inr y))) \<longleftrightarrow> returns m"
  by (cases m) (simp_all add: bind_def returns_def py_or_def)

lemma returns_map_sum: "returns (map_sum id f m) \<longleftrightarrow> returns m"
  by (cases m) (simp_all add: returns_def)

lemma returns_dict_display:
  "returns (dict_display es) \<longleftrightarrow> list_all (\<lambda>(k, e). returns e) es"
  by (induction es) (auto simp: returns_iff bind_Inr)

lemmas returns_simps = bind_return returns_py_get returns_py_or returns_if_not_none
  returns_bind_py_or returns_map_sum returns_dict_display

lemma section_is_dict:
  assumes "is_dict d" and "dict_or_absent d [k]"
  obtains kvs where "py_get d k (PDict []) = Inr (PDict kvs)"
  using assms
  by (auto simp: is_dict_def dict_or_absent_def py_get_def split: pyval.splits option.splits)

lemma section_dict_ex:
  "dict_or_absent (PDict d) [k] \<Longrightarrow> \<exists>kvs. py_get (PDict d) k (PDict []) = Inr (PDict kvs)"
  by (auto simp: is_dict_def dict_or_absent_def py_get_def split: pyval.splits option.splits)

lemma subsection_is_dict:
  assumes "py_get d k (PDict []) = Inr s" and "dict_or_absent d (k # p)" and "p \<noteq> []"
  shows "dict_or_absent s p"
  using assms by (simp del: file_value.simps add: dict_or_absent_def file_value_section)


lemma dict_display_keys: "dict_display es = Inr c \<Longrightarrow> map fst c = map fst es"
  by (drule dict_display_Inr) (simp add: comp_def case_prod_unfold)

lemma map_of_dict_update_notin:
  "k \<notin> fst ` set d \<Longrightarrow> map_of (dict_update c d) k = map_of c k"
  unfolding dict_update_def
  by (induction d arbitrary: c) (auto simp: update_conv')

lemma map_of_dict_update_in:
  "k \<in> fst ` set d \<Longrightarrow> distinct (map fst d) \<Longrightarrow> map_of (dict_update c d) k = map_of d k"
proof (induction d arbitrary: c)
  case Nil
  then show ?case by simp
next
  case (Cons p d)
  obtain k' v' where p: "p = (k', v')" by (cases p)
  show ?case
  proof (cases "k \<in> fst ` set d")
    case True
    with Cons.prems p have "k \<noteq> k'" by auto
    moreover from Cons.IH[OF True, of "AList.update k' v' c"] Cons.prems
    have "map_of (dict_update (AList.update k' v' c) d) k = map_of d k" by simp
    ultimately show ?thesis using p by (simp add: dict_update_def)
  next
    case False
    with Cons.prems p have "k = k'" by auto
    with map_of_dict_update_notin[OF False, of "AList.update k' v' c"] p show ?thesis
      by (simp add: dict_update_def update_conv')
  qed
qed

lemma load_app_returns:
  assumes "is_dict doc" and "dict_or_absent doc [''app'']"
  shows "returns (load_app_config env doc)"
proof -
  from assms obtain kvs where "py_get doc ''app'' (PDict []) = Inr (PDict kvs)"
    by (rule section_is_dict)
  then show ?thesis
    by (simp del: dict_display.simps add: load_app_config_def returns_simps)
qed

lemma load_crawler_returns:
  assumes "is_dict doc" and "dict_or_absent doc [''crawler'']"
  shows "returns (load_crawler_config env doc)"
proof -
  from assms obtain kvs where "py_get doc ''crawler'' (PDict []) = Inr (PDict kvs)"
    by (rule section_is_dict)
  then show ?thesis
    by (simp del: dict_display.simps add: load_crawler_config_def returns_simps)
qed

lemma load_report_returns:
  assumes "is_dict doc" and "dict_or_absent doc [''report'']"
  shows "returns (load_report_config env doc)"
proof -
  from assms obtain kvs where "py_get doc ''report'' (PDict []) = Inr (PDict kvs)"
    by (rule section_is_dict)
  then show ?thesis
    by (simp del: dict_display.simps add: load_report_config_def returns_simps)
qed

lemma load_notification_returns:
  assumes "is_dict doc" and "dict_or_absent doc [''notification'']"
  shows "returns (load_notification_config env doc)"
proof -
  from assms obtain kvs where "py_get doc ''notification'' (PDict []) = Inr (PDict kvs)"
    by (rule section_is_dict)
  then show ?thesis
    by (simp del: dict_display.simps add: load_notification_config_def returns_simps)
qed

lemma load_weight_returns:
  assumes "is_dict doc" and "dict_or_absent doc [''weight'']"
  shows "returns (load_weight_config doc)"
proof -
  from assms obtain kvs where "py_get doc ''weight'' (PDict []) = Inr (PDict kvs)"
    by (rule section_is_dict)
  then show ?thesis
    by (simp del: dict_display.simps add: load_weight_config_def returns_simps)
qed

lemma load_push_window_returns:
  assumes "is_dict doc" and "dict_or_absent doc [''notification'']"
    and "dict_or_absent doc [''notification'', ''push_window'']"
    and "dict_or_absent doc [''notification'', ''push_window'', ''time_range'']"
  shows "returns (load_push_window_config env doc)"
proof -
  from assms(1,2) obtain n where n: "py_get doc ''notification'' (PDict []) = Inr (PDict n)"
    by (rule section_is_dict)
  from subsection_is_dict[OF n assms(3)] obtain pw where
    pw: "py_get (PDict n) ''push_window'' (PDict []) = Inr (PDict pw)"
    by (auto dest: section_dict_ex)
  from subsection_is_dict[OF pw subsection_is_dict[OF n assms(4)]] obtain tr where
    tr: "py_get (PDict pw) ''time_range'' (PDict []) = Inr (PDict tr)"
    by (auto dest: section_dict_ex)
  from n pw tr show ?thesis
    by (simp del: dict_display.simps add: load_push_window_config_def returns_simps)
qed

lemma load_storage_returns:
  assumes "is_dict doc" and "dict_or_absent doc [''storage'']"
    and "dict_or_absent doc [''storage'', ''formats'']"
    and "dict_or_absent doc [''storage'', ''local'']"
    and "dict_or_absent doc [''storage'', ''remote'']"
    and "dict_or_absent doc [''storage'', ''pull'']"
  shows "returns (load_storage_config env doc)"
proof -
  from assms(1,2) obtain st where st: "py_get doc ''storage'' (PDict []) = Inr (PDict st)"
    by (rule section_is_dict)
  from subsection_is_dict[OF st assms(3)] obtain f where
    f: "py_get (PDict st) ''formats'' (PDict []) = Inr (PDict f)"
    by (auto dest: section_dict_ex)
  from subsection_is_dict[OF st assms(4)] obtain l where
    l: "py_get (PDict st) ''local'' (PDict []) = Inr (PDict l)"
    by (auto dest: section_dict_ex)
  from subsection_is_dict[OF st assms(5)] obtain r where
    r: "py_get (PDict st) ''remote'' (PDict []) = Inr (PDict r)"
    by (auto dest: section_dict_ex)
  from subsection_is_dict[OF st assms(6)] obtain p where
    p: "py_get (PDict st) ''pull'' (PDict []) = Inr (PDict p)"
    by (auto dest: section_dict_ex)
  from st f l r p show ?thesis
    by (simp del: dict_display.simps add: load_storage_config_def returns_simps)
qed

lemma load_webhook_returns:
  assumes "is_dict doc" and "dict_or_absent doc [''notification'']"
    and "dict_or_absent doc [''notification'', ''webhooks'']"
  shows "returns (load_webhook_config env doc)"
proof -
  from assms(1,2) obtain n where n: "py_get doc ''notification'' (PDict []) = Inr (PDict n)"
    by (rule section_is_dict)
  from subsection_is_dict[OF n assms(3)] obtain w where
    w: "py_get (PDict n) ''webhooks'' (PDict []) = Inr (PDict w)"
    by (auto dest: section_dict_ex)
  from n w show ?thesis
    by (simp del: dict_display.simps add: load_webhook_config_def webhook_field_def returns_simps)
qed


lemma returns_bind:
  "returns m \<Longrightarrow> (\<And>v. m = Inr v \<Longrightarrow> returns (f v)) \<Longrightarrow> returns (bind m f)"
  by (cases m) (simp_all add: bind_def returns_def)

lemma returns_py_min: "is_number mx \<Longrightarrow> returns (py_min a mx)"
  by (cases mx) (simp_all add: is_number_def py_min_def py_lt_int_def bind_def)

lemma returns_count:
  assumes "is_number mx" and "formats mx"
  shows "\<exists>n. bind (py_min a mx) (\<lambda>c. bind (count_text a c) f) = f n"
proof -
  from returns_py_min[OF assms(1)] obtain c where c: "py_min a mx = Inr c"
    by (auto simp: returns_iff)
  then have "c = mx \<or> c = PInt a"
    by (auto simp: py_min_def bind_Inr split: if_splits)
  with assms(2) have "count_text a c = Inr c"
    by (auto simp: count_text_def format_value_def)
  with c show ?thesis by (auto simp: bind_def)
qed

lemma returns_collect: "list_all returns ms \<Longrightarrow> returns (collect ms)"
  by (induction ms) (auto simp: returns_iff bind_def)

lemma returns_all_truthy: "\<forall>k \<in> set ks. map_of c k \<noteq> None \<Longrightarrow> returns (all_truthy c ks)"
  by (induction ks) (auto simp: config_item_def bind_def)

lemma single_channel_returns:
  assumes "map_of c key = Some (PStr s)" and "is_number mx \<and> formats mx"
    and "\<forall>s. returns (parse (PStr s))"
  shows "returns (single_channel parse env c mx ch key)"
proof -
  from assms(3) obtain ts where ts: "parse (PStr s) = Inr ts" by (auto simp: returns_iff)
  from assms(2) returns_count[of mx "int (length ts)"
      "\<lambda>n. Inr [\<lparr>channel = ch, source = source_of env key, count = Some n\<rparr>]"]
  obtain n where "bind (py_min (int (length ts)) mx) (\<lambda>c. bind (count_text (int (length ts)) c)
      (\<lambda>n. Inr [\<lparr>channel = ch, source = source_of env key, count = Some n\<rparr>])) =
      Inr [\<lparr>channel = ch, source = source_of env key, count = Some n\<rparr>]"
    by auto
  with assms(1) ts show ?thesis
    by (simp add: single_channel_def config_item_def bind_return)
qed

lemma telegram_channel_returns:
  assumes "map_of c ''TELEGRAM_BOT_TOKEN'' = Some (PStr s)"
    and "map_of c ''TELEGRAM_CHAT_ID'' = Some (PStr s')"
    and "is_number mx \<and> formats mx" and "\<forall>s. returns (parse (PStr s))"
  shows "returns (telegram_channel parse validate env c mx)"
proof -
  from assms(4) obtain ts ts' where ts: "parse (PStr s) = Inr ts" "parse (PStr s') = Inr ts'"
    unfolding returns_iff by metis
  obtain valid t where v: "validate [(''bot_token'', ts), (''chat_id'', ts')] ''Telegram''
      (Some [''bot_token'', ''chat_id'']) = (valid, t)"
    by (cases "validate [(''bot_token'', ts), (''chat_id'', ts')] ''Telegram''
      (Some [''bot_token'', ''chat_id''])")
  from assms(3) returns_count[of mx t
      "\<lambda>n. Inr [\<lparr>channel = Telegram, source = source_of env ''TELEGRAM_BOT_TOKEN'',
         count = Some n\<rparr>]"]
  obtain n where "bind (py_min t mx) (\<lambda>c. bind (count_text t c)
      (\<lambda>n. Inr [\<lparr>channel = Telegram, source = source_of env ''TELEGRAM_BOT_TOKEN'',
         count = Some n\<rparr>])) =
      Inr [\<lparr>channel = Telegram, source = source_of env ''TELEGRAM_BOT_TOKEN'', count = Some n\<rparr>]"
    by auto
  with assms(1,2) ts v show ?thesis
    by (simp add: telegram_channel_def config_item_def bind_return)
qed

lemma email_channel_returns:
  assumes "\<forall>k \<in> set [''EMAIL_FROM'', ''EMAIL_PASSWORD'', ''EMAIL_TO'']. map_of c k \<noteq> None"
  shows "returns (email_channel env c)"
  using returns_all_truthy[OF assms]
  by (auto simp del: all_truthy.simps simp: email_channel_def returns_iff bind_def)

lemma ntfy_channel_returns:
  assumes "map_of c ''NTFY_SERVER_URL'' \<noteq> None"
    and "map_of c ''NTFY_TOPIC'' = Some (PStr s)"
    and "map_of c ''NTFY_TOKEN'' = Some (PStr s')"
    and "is_number mx \<and> formats mx" and "\<forall>s. returns (parse (PStr s))"
  shows "returns (ntfy_channel parse validate env c mx)"
proof -
  from assms(5) obtain ts ts' where ts: "parse (PStr s) = Inr ts" "parse (PStr s') = Inr ts'"
    unfolding returns_iff by metis
  obtain valid t where v: "validate [(''topic'', ts), (''token'', ts')] ''ntfy'' None = (valid, t)"
    by (cases "validate [(''topic'', ts), (''token'', ts')] ''ntfy'' None")
  from assms(4) returns_count[of mx t
      "\<lambda>n. Inr [\<lparr>channel = Ntfy, source = source_of env ''NTFY_SERVER_URL'', count = Some n\<rparr>]"]
  obtain n where n: "bind (py_min t mx) (\<lambda>c. bind (count_text t c)
      (\<lambda>n. Inr [\<lparr>channel = Ntfy, source = source_of env ''NTFY_SERVER_URL'', count = Some n\<rparr>])) =
      Inr [\<lparr>channel = Ntfy, source = source_of env ''NTFY_SERVER_URL'', count = Some n\<rparr>]"
    by auto
  from assms(4) returns_count[of mx "int (length ts)"
      "\<lambda>n. Inr [\<lparr>channel = Ntfy, source = source_of env ''NTFY_SERVER_URL'', count = Some n\<rparr>]"]
  obtain n' where n': "bind (py_min (int (length ts)) mx) (\<lambda>c. bind (count_text (int (length ts)) c)
      (\<lambda>n. Inr [\<lparr>channel = Ntfy, source = source_of env ''NTFY_SERVER_URL'', count = Some n\<rparr>])) =
      Inr [\<lparr>channel = Ntfy, source = source_of env ''NTFY_SERVER_URL'', count = Some n'\<rparr>]"
    by auto
  from assms(1,2,3) ts v n n' show ?thesis
    by (auto simp: ntfy_channel_def config_item_def bind_return)
qed

lemma print_returns:
  assumes "map_of c ''MAX_ACCOUNTS_PER_CHANNEL'' = Some mx" and "is_number mx \<and> formats mx"
    and str: "\<forall>k \<in> set [''FEISHU_WEBHOOK_URL'', ''DINGTALK_WEBHOOK_URL'', ''WEWORK_WEBHOOK_URL'',
        ''TELEGRAM_BOT_TOKEN'', ''TELEGRAM_CHAT_ID'', ''NTFY_TOPIC'', ''NTFY_TOKEN'', ''BARK_URL'',
        ''SLACK_WEBHOOK_URL'']. \<exists>s. map_of c k = Some (PStr s)"
    and set: "\<forall>k \<in> set [''EMAIL_FROM'', ''EMAIL_PASSWORD'', ''EMAIL_TO'', ''NTFY_SERVER_URL''].
        map_of c k \<noteq> None"
    and parse: "\<forall>s. returns (parse (PStr s))"
  shows "returns (print_notification_sources parse validate env c)"
proof -
  note n = assms(2) and p = parse
  have "returns (single_channel parse env c mx Feishu ''FEISHU_WEBHOOK_URL'')"
    "returns (single_channel parse env c mx Dingtalk ''DINGTALK_WEBHOOK_URL'')"
    "returns (single_channel parse env c mx Wework ''WEWORK_WEBHOOK_URL'')"
    "returns (single_channel parse env c mx Bark ''BARK_URL'')"
    "returns (single_channel parse env c mx Slack ''SLACK_WEBHOOK_URL'')"
    using str by (auto intro: single_channel_returns[OF _ n p])
  moreover have "returns (telegram_channel parse validate env c mx)"
    using str by (auto intro: telegram_channel_returns[OF _ _ n p])
  moreover have "returns (email_channel env c)"
    using set by (intro email_channel_returns) simp
  moreover have "returns (ntfy_channel parse validate env c mx)"
    using str set by (auto intro: ntfy_channel_returns[OF _ _ _ n p])
  ultimately have "returns (notification_sources parse validate env c mx)"
    unfolding notification_sources_def by (intro returns_collect) simp
  with assms(1,2) show ?thesis
    by (auto simp: print_notification_sources_def config_item_def bind_def returns_iff
        format_value_def)
qed

lemma webhook_keys:
  assumes "load_webhook_config env doc = Inr w"
  shows "map fst w =
    [''FEISHU_WEBHOOK_URL'', ''DINGTALK_WEBHOOK_URL'', ''WEWORK_WEBHOOK_URL'', ''WEWORK_MSG_TYPE'',
     ''TELEGRAM_BOT_TOKEN'', ''TELEGRAM_CHAT_ID'', ''EMAIL_FROM'', ''EMAIL_PASSWORD'', ''EMAIL_TO'',
     ''EMAIL_SMTP_SERVER'', ''EMAIL_SMTP_PORT'', ''NTFY_SERVER_URL'', ''NTFY_TOPIC'', ''NTFY_TOKEN'',
     ''BARK_URL'', ''SLACK_WEBHOOK_URL'']"
  using assms
  by (auto simp del: dict_display.simps simp: load_webhook_config_def bind_Inr
      dest!: dict_display_keys)

lemma notification_keys:
  assumes "load_notification_config env doc = Inr n"
  shows "map fst n =
    [''ENABLE_NOTIFICATION'', ''MESSAGE_BATCH_SIZE'', ''DINGTALK_BATCH_SIZE'', ''FEISHU_BATCH_SIZE'',
     ''BARK_BATCH_SIZE'', ''SLACK_BATCH_SIZE'', ''BATCH_SEND_INTERVAL'',
     ''FEISHU_MESSAGE_SEPARATOR'', ''MAX_ACCOUNTS_PER_CHANNEL'']"
  using assms
  by (auto simp del: dict_display.simps simp: load_notification_config_def bind_Inr Let_def
      dest!: dict_display_keys)

lemma webhook_value_str:
  assumes "load_webhook_config env doc = Inr w" and "(var, key) \<in> set webhook_fields"
    and "case file_value doc [''notification'', ''webhooks'', key] of
           Some v \<Rightarrow> is_str v | None \<Rightarrow> True"
  shows "\<exists>s. map_of w var = Some (PStr s)"
proof -
  from webhook_item[OF assms(1,2)] obtain n' w' v where
    n: "py_get doc ''notification'' (PDict []) = Inr n'"
    and w: "py_get n' ''webhooks'' (PDict []) = Inr w'"
    and v: "webhook_field env w' var key = Inr v" and m: "map_of w var = Some v"
    by blast
  from assms(3) have f: "case file_value w' [key] of Some v \<Rightarrow> is_str v | None \<Rightarrow> True"
    by (simp only: webhook_file_value[OF n w])
  have "is_str v"
  proof (cases "env_present env var")
    case None
    with v have "py_get w' key (PStr []) = Inr v"
      by (simp add: webhook_field_def py_or_env_str)
    from py_get_file_value[OF this] f show ?thesis
      by (auto simp del: file_value.simps simp: is_str_def split: option.splits)
  next
    case (Some s)
    with v show ?thesis by (auto simp: webhook_field_def py_or_env_str is_str_def)
  qed
  with m show ?thesis by (cases v) (simp_all add: is_str_def)
qed

lemma digit_of_le: "digit_of c = Some d \<Longrightarrow> d \<le> 9"
  by (auto simp: digit_of_def split: if_splits)

lemma digits_value_bound:
  "digits_value cs acc = Some v \<Longrightarrow>
     v < (acc + 1) * 10 ^ length (filter (\<lambda>c. digit_of c \<noteq> None) cs)"
proof (induction cs acc rule: digits_value.induct)
  case (1 acc)
  then show ?case by simp
next
  case (2 c cs acc)
  show ?case
  proof (cases "digit_of c")
    case None
    with "2.prems" have "(if c = CHR ''_'' then
        (case cs of [] \<Rightarrow> None
         | c' # _ \<Rightarrow> (if digit_of c' = None then None else digits_value cs acc))
        else None) = Some v"
      by (simp only: digits_value.simps option.case)
    then obtain c' rest where c: "c = CHR ''_''" and cs: "cs = c' # rest"
      and d: "digit_of c' \<noteq> None" and v: "digits_value cs acc = Some v"
      by (cases cs) (auto simp del: digits_value.simps split: if_splits)
    from "2.IH"(1)[OF None c cs d v] None show ?thesis by simp
  next
    case (Some d)
    with "2.prems" have "digits_value cs (10 * acc + d) = Some v" by simp
    from "2.IH"(2)[OF Some this]
    have "v < (10 * acc + d + 1) * 10 ^ length (filter (\<lambda>c. digit_of c \<noteq> None) cs)" .
    also from digit_of_le[OF Some]
    have "\<dots> \<le> (10 * acc + 10) * 10 ^ length (filter (\<lambda>c. digit_of c \<noteq> None) cs)"
      by (intro mult_right_mono) simp_all
    finally show ?thesis using Some by (simp add: algebra_simps)
  qed
qed

lemma py_nat_bound: "py_nat s = Some v \<Longrightarrow> v < 10 ^ max_str_digits"
proof -
  assume a: "py_nat s = Some v"
  then have le: "length (filter (\<lambda>c. digit_of c \<noteq> None) s) \<le> max_str_digits"
    and v: "digits_value s 0 = Some v"
    by (auto simp: py_nat_def split: list.splits if_splits)
  from digits_value_bound[OF v]
  have "v < 10 ^ length (filter (\<lambda>c. digit_of c \<noteq> None) s)" by simp
  also from le have "\<dots> \<le> (10::nat) ^ max_str_digits"
    by (intro power_increasing) simp_all
  finally show ?thesis .
qed

lemma py_int_bound: "py_int s = Some i \<Longrightarrow> \<bar>i\<bar> < 10 ^ max_str_digits"
proof -
  assume "py_int s = Some i"
  then obtain v where "py_nat s = Some v \<or> py_nat (tl s) = Some v" and "\<bar>i\<bar> = int v"
    by (auto simp: py_int_def split: list.splits if_splits)
  then have "v < 10 ^ max_str_digits" by (auto dest: py_nat_bound)
  then have "int v < int (10 ^ max_str_digits)" by (simp only: of_nat_less_iff)
  with \<open>\<bar>i\<bar> = int v\<close> show ?thesis by simp
qed

lemma notification_max_number:
  assumes "load_notification_config env doc = Inr n"
    and "case file_value doc [''notification'', ''max_accounts_per_channel''] of
           Some v \<Rightarrow> is_number v \<and> formats v | None \<Rightarrow> True"
  shows "\<exists>mx. map_of n ''MAX_ACCOUNTS_PER_CHANNEL'' = Some mx \<and> is_number mx \<and> formats mx"
proof -
  have "''MAX_ACCOUNTS_PER_CHANNEL'' \<in> set (map fst n)"
    unfolding notification_keys[OF assms(1)] by simp
  then obtain mx where mx: "map_of n ''MAX_ACCOUNTS_PER_CHANNEL'' = Some mx"
    by (cases "map_of n ''MAX_ACCOUNTS_PER_CHANNEL''") (auto simp: map_of_eq_None_iff)
  with assms(1) have "resolved_int env doc MAX_ACCOUNTS_PER_CHANNEL = Inr mx"
    by (simp add: bind_def config_item_def)
  then have "mx = nonzero_int_override env doc MAX_ACCOUNTS_PER_CHANNEL"
    by (rule resolved_int_value)
  with assms(2) have "is_number mx \<and> formats mx"
    by (auto simp del: file_value.simps simp: nonzero_int_override_def file_or_default_def
        is_number_def digit_formats split: option.splits bind_splits dest: py_int_bound)
  with mx show ?thesis by blast
qed

lemma dotenv_step_keeps:
  "dotenv_step raw (env, n) = Inr (env', n') \<Longrightarrow> env k = Some v \<Longrightarrow> env' k = Some v"
  by (auto simp: dotenv_step_def bind_def environ_set_def split: option.splits if_splits)

lemma dotenv_lines_keeps:
  "dotenv_lines ls (env, n) = (ok, env', n') \<Longrightarrow> env k = Some v \<Longrightarrow> env' k = Some v"
proof (induction ls arbitrary: env n)
  case Nil
  then show ?case by simp
next
  case (Cons raw rest)
  show ?case
  proof (cases "dotenv_step raw (env, n)")
    case (Inl e)
    with Cons.prems show ?thesis by simp
  next
    case (Inr st)
    obtain env1 n1 where st: "st = (env1, n1)" by (cases st)
    from Inr st Cons.prems(2) have "env1 k = Some v" by (auto dest: dotenv_step_keeps)
    moreover from Inr st Cons.prems(1) have "dotenv_lines rest (env1, n1) = (ok, env', n')"
      by simp
    ultimately show ?thesis by (rule Cons.IH[rotated])
  qed
qed

lemma dotenv_step_new:
  "dotenv_step raw (env, n) = Inr (env', n') \<Longrightarrow> env k = None \<Longrightarrow> env' k = Some v
     \<Longrightarrow> dotenv_entry raw = Some (k, v)"
  by (auto simp: dotenv_step_def bind_def environ_set_def split: option.splits if_splits)

lemma dotenv_lines_new:
  "dotenv_lines ls (env, n) = (ok, env', n') \<Longrightarrow> env k = None \<Longrightarrow> env' k = Some v
     \<Longrightarrow> \<exists>raw \<in> set ls. dotenv_entry raw = Some (k, v)"
proof (induction ls arbitrary: env n)
  case Nil
  then show ?case by simp
next
  case (Cons raw rest)
  show ?case
  proof (cases "dotenv_step raw (env, n)")
    case (Inl e)
    with Cons.prems show ?thesis by simp
  next
    case (Inr st)
    obtain env1 n1 where st: "st = (env1, n1)" by (cases st)
    from Inr st Cons.prems(1) have rest: "dotenv_lines rest (env1, n1) = (ok, env', n')"
      by simp
    show ?thesis
    proof (cases "env1 k")
      case None
      from Cons.IH[OF rest None Cons.prems(3)] show ?thesis by auto
    next
      case (Some w)
      from dotenv_lines_keeps[OF rest Some] Cons.prems(3) have "w = v" by simp
      with Some Inr st Cons.prems(2) have "dotenv_entry raw = Some (k, v)"
        by (auto dest: dotenv_step_new)
      then show ?thesis by auto
    qed
  qed
qed


lemma py_get_PDict:
  "py_get (PDict kvs) k dflt = Inr (case map_of kvs (PStr k) of Some v \<Rightarrow> v | None \<Rightarrow> dflt)"
  by (simp add: py_get_def)

lemma py_or_Inr: "py_or x (Inr y) = Inr (if truthy x then x else y)"
  by (simp add: py_or_def)

lemma if_not_none_Inr:
  "if_not_none x (Inr y) = Inr (case x of Some b \<Rightarrow> PBool b | None \<Rightarrow> y)"
  by (simp add: if_not_none_def split: option.splits)

lemma py_item_as_dict_Cons:
  "py_item (as_dict ((k, v) # c)) k' = (if k' = k then Inr v else py_item (as_dict c) k')"
  by (simp add: py_item_def as_dict_def)

lemmas compute_simps = bind_return py_get_PDict py_or_Inr if_not_none_Inr config_item_Cons
  py_item_as_dict_Cons

lemma single_section_dict:
  assumes "sections_ok d [[k]]"
  obtains kvs where "py_get d k (PDict []) = Inr (PDict kvs)"
  using assms by (auto simp: sections_ok_def elim: section_is_dict)


lemma storage_sections_dicts:
  assumes "sections_ok d storage_sections"
  obtains st f l r p where "py_get d ''storage'' (PDict []) = Inr (PDict st)"
    and "py_get (PDict st) ''formats'' (PDict []) = Inr (PDict f)"
    and "py_get (PDict st) ''local'' (PDict []) = Inr (PDict l)"
    and "py_get (PDict st) ''remote'' (PDict []) = Inr (PDict r)"
    and "py_get (PDict st) ''pull'' (PDict []) = Inr (PDict p)"
proof -
  from assms have d: "is_dict d" and s: "dict_or_absent d [''storage'']"
    "dict_or_absent d [''storage'', ''formats'']" "dict_or_absent d [''storage'', ''local'']"
    "dict_or_absent d [''storage'', ''remote'']" "dict_or_absent d [''storage'', ''pull'']"
    by (simp_all del: file_value.simps add: sections_ok_def storage_sections_def)
  from d s(1) obtain st where st: "py_get d ''storage'' (PDict []) = Inr (PDict st)"
    by (rule section_is_dict)
  from subsection_is_dict[OF st s(2)] obtain f where
    f: "py_get (PDict st) ''formats'' (PDict []) = Inr (PDict f)"
    by (auto dest: section_dict_ex)
  from subsection_is_dict[OF st s(3)] obtain l where
    l: "py_get (PDict st) ''local'' (PDict []) = Inr (PDict l)"
    by (auto dest: section_dict_ex)
  from subsection_is_dict[OF st s(4)] obtain r where
    r: "py_get (PDict st) ''remote'' (PDict []) = Inr (PDict r)"
    by (auto dest: section_dict_ex)
  from subsection_is_dict[OF st s(5)] obtain p where
    "py_get (PDict st) ''pull'' (PDict []) = Inr (PDict p)"
    by (auto dest: section_dict_ex)
  with st f l r show thesis by (rule that)
qed


lemma resolved_int_returns:
  assumes "sections_ok d (int_sections f)"
  shows "returns (resolved_int env d f)"
proof (cases f)
  case MAX_NEWS_PER_KEYWORD
  with assms obtain kvs where "py_get d ''report'' (PDict []) = Inr (PDict kvs)"
    by (auto elim: single_section_dict)
  then show ?thesis unfolding MAX_NEWS_PER_KEYWORD
    by (simp add: load_report_config_def compute_simps)
next
  case MAX_ACCOUNTS_PER_CHANNEL
  with assms obtain kvs where "py_get d ''notification'' (PDict []) = Inr (PDict kvs)"
    by (auto elim: single_section_dict)
  then show ?thesis unfolding MAX_ACCOUNTS_PER_CHANNEL
    by (simp add: load_notification_config_def compute_simps)
next
  case LOCAL_RETENTION_DAYS
  with assms obtain st f l r p where "py_get d ''storage'' (PDict []) = Inr (PDict st)"
    "py_get (PDict st) ''formats'' (PDict []) = Inr (PDict f)"
    "py_get (PDict st) ''local'' (PDict []) = Inr (PDict l)"
    "py_get (PDict st) ''remote'' (PDict []) = Inr (PDict r)"
    "py_get (PDict st) ''pull'' (PDict []) = Inr (PDict p)"
    by (auto elim: storage_sections_dicts)
  then show ?thesis unfolding LOCAL_RETENTION_DAYS
    by (simp add: load_storage_config_def compute_simps)
next
  case REMOTE_RETENTION_DAYS
  with assms obtain st f l r p where "py_get d ''storage'' (PDict []) = Inr (PDict st)"
    "py_get (PDict st) ''formats'' (PDict []) = Inr (PDict f)"
    "py_get (PDict st) ''local'' (PDict []) = Inr (PDict l)"
    "py_get (PDict st) ''remote'' (PDict []) = Inr (PDict r)"
    "py_get (PDict st) ''pull'' (PDict []) = Inr (PDict p)"
    by (auto elim: storage_sections_dicts)
  then show ?thesis unfolding REMOTE_RETENTION_DAYS
    by (simp add: load_storage_config_def compute_simps)
next
  case PULL_DAYS
  with assms obtain st f l r p where "py_get d ''storage'' (PDict []) = Inr (PDict st)"
    "py_get (PDict st) ''formats'' (PDict []) = Inr (PDict f)"
    "py_get (PDict st) ''local'' (PDict []) = Inr (PDict l)"
    "py_get (PDict st) ''remote'' (PDict []) = Inr (PDict r)"
    "py_get (PDict st) ''pull'' (PDict []) = Inr (PDict p)"
    by (auto elim: storage_sections_dicts)
  then show ?thesis unfolding PULL_DAYS
    by (simp add: load_storage_config_def compute_simps)
qed

subsection \<open>Boolean fields\<close>




subsection \<open>Integer fields\<close>

text \<open>
  Claim C2, as stated, fails. With \<open>MAX_ACCOUNTS_PER_CHANNEL\<close> set to \<open>0\<close> in the
  environment (present in the sense of section 4.1) and \<open>max_accounts_per_channel: 5\<close> in
  the file, the field resolves to 5, not to 0. And with the variable set to \<open>2\<close> and
  \<open>notification:\<close> null in the file, the loader raises \<^verbatim>\<open>AttributeError\<close> and the
  override does not win.
\<close>

theorem max_accounts_env_zero_counterexample:
  "env_present [''MAX_ACCOUNTS_PER_CHANNEL'' \<mapsto> ''0''] ''MAX_ACCOUNTS_PER_CHANNEL'' = Some ''0'' \<and>
   resolved_int [''MAX_ACCOUNTS_PER_CHANNEL'' \<mapsto> ''0'']
     (PDict [(PStr ''notification'', PDict [(PStr ''max_accounts_per_channel'', PInt 5)])])
     MAX_ACCOUNTS_PER_CHANNEL = Inr (PInt 5) \<and>
   resolved_int [''MAX_ACCOUNTS_PER_CHANNEL'' \<mapsto> ''2''] (PDict [(PStr ''notification'', PNone)])
     MAX_ACCOUNTS_PER_CHANNEL = Inl AttributeError"
  by (simp add: load_notification_config_def py_get_def bind_def get_env_bool_def get_env_int_def
      environ_get_def strip_def is_space_def lower_def if_not_none_def py_or_def config_item_def
      py_int_def py_nat_def digit_of_def max_str_digits_def env_present_def)

text \<open>
  Claim C2, amended. For every integer field (\<open>MAX_NEWS_PER_KEYWORD\<close>,
  \<open>MAX_ACCOUNTS_PER_CHANNEL\<close>, \<open>LOCAL_RETENTION_DAYS\<close>, \<open>REMOTE_RETENTION_DAYS\<close>,
  \<open>PULL_DAYS\<close>), when the file is a mapping in which the sections the field's loader reads
  are mappings or absent, the field is resolved: an environment override that is present
  and parses to an integer other than 0 wins outright; an override of 0 is treated as not
  overriding, for every integer field alike, and the field falls through to the file
  value when the key exists, else to the default.
\<close>

theorem int_fields_resolve:
  assumes "sections_ok d (int_sections f)"
  shows "resolved_int env d f = Inr (nonzero_int_override env d f)"
proof -
  from resolved_int_returns[OF assms] obtain v where v: "resolved_int env d f = Inr v"
    by (auto simp: returns_iff)
  from resolved_int_value[OF v] v show ?thesis by simp
qed

theorem int_fields_resolve_witness:
  "map (resolved_int
          [''MAX_NEWS_PER_KEYWORD'' \<mapsto> ''5'', ''MAX_ACCOUNTS_PER_CHANNEL'' \<mapsto> ''0'',
           ''LOCAL_RETENTION_DAYS'' \<mapsto> '' +1_0 '', ''PULL_DAYS'' \<mapsto> ''-2'']
          (PDict [(PStr ''report'', PDict [(PStr ''max_news_per_keyword'', PInt 9)]),
                  (PStr ''notification'', PDict [(PStr ''max_accounts_per_channel'', PInt 4)]),
                  (PStr ''storage'', PDict [(PStr ''local'',
                     PDict [(PStr ''retention_days'', PInt 30)])])]))
     [MAX_NEWS_PER_KEYWORD, MAX_ACCOUNTS_PER_CHANNEL, LOCAL_RETENTION_DAYS,
      REMOTE_RETENTION_DAYS, PULL_DAYS]
   = map (\<lambda>i. Inr (PInt i)) [5, 4, 10, 0, - 2]"
  (is "map (resolved_int ?env ?doc) _ = _")
proof -
  have ok: "sections_ok ?doc (int_sections f)" for f
    by (cases f)
       (simp_all add: sections_ok_def is_dict_def dict_or_absent_def storage_sections_def)
  have r: "resolved_int ?env ?doc f = Inr (nonzero_int_override ?env ?doc f)" for f
    by (rule int_fields_resolve[OF ok])
  show ?thesis
    by (simp only: list.map r)
       (simp add: nonzero_int_override_def env_present_def file_or_default_def strip_def
          is_space_def py_int_def py_nat_def digit_of_def max_str_digits_def)
qed





subsection \<open>The local override file\<close>

text \<open>
  Claim C8. Loading the override file never overwrites a variable of the environment:
  every key set before the load has the same value afterwards, whatever the file holds
  and also when reading it fails halfway. A key that was absent and is set afterwards
  got its value from one of the file's \<open>KEY=VALUE\<close> lines, as \<open>dotenv_entry\<close> reads it
  (quotes removed); a comment line gives no entry.
\<close>

theorem dotenv_never_overwrites:
  assumes "load_dotenv env_file env = (ok, env', n)"
  shows "(\<forall>k v. env k = Some v \<longrightarrow> env' k = Some v) \<and>
         (\<forall>k v. env k = None \<and> env' k = Some v \<longrightarrow>
            (\<exists>lines fails. env_file = Some (lines, fails) \<and>
               (\<exists>raw \<in> set lines. dotenv_entry raw = Some (k, v)))) \<and>
         (\<forall>raw. startswith (strip raw) ''#'' \<longrightarrow> dotenv_entry raw = None)"
proof (cases env_file)
  case None
  with assms show ?thesis by (auto simp: load_dotenv_def dotenv_entry_def)
next
  case (Some p)
  obtain lines fails where p: "p = (lines, fails)" by (cases p)
  from assms Some p obtain ok' where run: "dotenv_lines lines (env, 0) = (ok', env', n)"
    by (auto simp: load_dotenv_def split: prod.splits)
  have "\<forall>k v. env k = Some v \<longrightarrow> env' k = Some v"
    using dotenv_lines_keeps[OF run] by blast
  moreover have "\<forall>k v. env k = None \<and> env' k = Some v \<longrightarrow>
      (\<exists>raw \<in> set lines. dotenv_entry raw = Some (k, v))"
    using dotenv_lines_new[OF run] by blast
  moreover have "\<forall>raw. startswith (strip raw) ''#'' \<longrightarrow> dotenv_entry raw = None"
    by (simp add: dotenv_entry_def)
  ultimately show ?thesis using Some p by simp
qed

theorem dotenv_never_overwrites_witness:
  "load_dotenv (Some ([''# comment'', ''A=1'', '' B = \"x y\" '', ''C'', ''=z''], False))
     [''A'' \<mapsto> ''0''] = (True, [''A'' \<mapsto> ''0'', ''B'' \<mapsto> ''x y''], 1) \<and>
   [''A'' \<mapsto> ''0'', ''B'' \<mapsto> ''x y''] ''A'' = Some ''0''"
proof -
  have h: "load_dotenv (Some ([''# comment'', ''A=1'', '' B = \"x y\" '', ''C'', ''=z''], False))
     [''A'' \<mapsto> ''0''] = (True, [''A'' \<mapsto> ''0'', ''B'' \<mapsto> ''x y''], 1)"
    by (simp add: load_dotenv_def dotenv_step_def dotenv_entry_def strip_def is_space_def
        startswith_def endswith_def partition_at_def slice_1_m1_def bind_def environ_set_def)
  from dotenv_never_overwrites[OF h] have "[''A'' \<mapsto> ''0'', ''B'' \<mapsto> ''x y''] ''A'' = Some ''0''"
    by simp
  with h show ?thesis by simp
qed

subsection \<open>Webhook fields\<close>

text \<open>
  Claim C9, as stated, fails on file values that are not strings. With \<open>feishu_url\<close> and
  \<open>ntfy_server_url\<close> both set to null in the file and no variable set,
  \<open>NTFY_SERVER_URL\<close> resolves to \<open>https://ntfy.sh\<close> but \<open>FEISHU_WEBHOOK_URL\<close> resolves to
  \<open>None\<close>, which is not the empty string; and with \<open>ntfy_server_url: 8080\<close>,
  \<open>NTFY_SERVER_URL\<close> resolves to the integer 8080, which is not a string.
\<close>

theorem webhook_null_counterexample:
  "map_sum id (\<lambda>c. (map_of c ''FEISHU_WEBHOOK_URL'', map_of c ''NTFY_SERVER_URL''))
     (load_webhook_config Map.empty
        (PDict [(PStr ''notification'', PDict [(PStr ''webhooks'',
           PDict [(PStr ''feishu_url'', PNone), (PStr ''ntfy_server_url'', PNone)])])]))
     = Inr (Some PNone, Some (PStr ''https://ntfy.sh'')) \<and>
   map_sum id (\<lambda>c. map_of c ''NTFY_SERVER_URL'')
     (load_webhook_config Map.empty
        (PDict [(PStr ''notification'', PDict [(PStr ''webhooks'',
           PDict [(PStr ''ntfy_server_url'', PInt 8080)])])]))
     = Inr (Some (PInt 8080))"
  by (simp add: load_webhook_config_def bind_def py_get_def webhook_field_def py_or_def
      get_env_str_def environ_get_def strip_Nil)

text \<open>
  Claim C9, amended. Whenever the webhook loader returns, the resolved
  \<open>NTFY_SERVER_URL\<close> is truthy, and it is a non-empty string whenever the file's
  \<open>ntfy_server_url\<close> is absent, falsy or a string. When neither the variable (non-empty
  after trimming) nor the file supplies a truthy value, also when the file sets the empty
  string, it resolves to \<open>https://ntfy.sh\<close>. Every other webhook field whose default is
  the empty string resolves, under the same conditions, to the file's own falsy value
  when the key exists, and so to the empty string when the key is absent or set to the
  empty string.
\<close>

theorem ntfy_server_url_default:
  assumes "load_webhook_config env d = Inr c"
  shows "(\<exists>v. map_of c ''NTFY_SERVER_URL'' = Some v \<and> truthy v \<and>
            ((case file_value d [''notification'', ''webhooks'', ''ntfy_server_url''] of
                Some x \<Rightarrow> is_str x \<or> \<not> truthy x
              | None \<Rightarrow> True) \<longrightarrow> (\<exists>s. v = PStr s \<and> s \<noteq> []))) \<and>
         (env_present env ''NTFY_SERVER_URL'' = None \<and>
          \<not> truthy (file_or_default d [''notification'', ''webhooks'', ''ntfy_server_url''] PNone)
            \<longrightarrow> map_of c ''NTFY_SERVER_URL'' = Some (PStr ''https://ntfy.sh'')) \<and>
         (\<forall>(var, key) \<in> set webhook_fields.
            env_present env var = None \<and>
            \<not> truthy (file_or_default d [''notification'', ''webhooks'', key] (PStr []))
            \<longrightarrow> map_of c var =
                  Some (file_or_default d [''notification'', ''webhooks'', key] (PStr []))) \<and>
         (\<forall>(var, key) \<in> set webhook_fields.
            env_present env var = None \<and>
            file_value d [''notification'', ''webhooks'', key] \<in> {None, Some (PStr [])}
            \<longrightarrow> map_of c var = Some (PStr []))"
proof -
  from ntfy_item[OF assms] obtain n w v where n: "py_get d ''notification'' (PDict []) = Inr n"
    and w: "py_get n ''webhooks'' (PDict []) = Inr w"
    and v: "bind (py_or (PStr (get_env_str env ''NTFY_SERVER_URL'' []))
                   (py_get w ''ntfy_server_url'' PNone))
             (\<lambda>v. py_or v (Inr (PStr ''https://ntfy.sh''))) = Inr v"
    and cv: "map_of c ''NTFY_SERVER_URL'' = Some v"
    by blast
  note fv = webhook_file_value[OF n w]
  have present: "env_present env var = Some s \<Longrightarrow> s \<noteq> []" for var s
    by (auto simp: env_present_def split: option.splits if_splits)
  have ntfy: "v = (case env_present env ''NTFY_SERVER_URL'' of
                     Some s \<Rightarrow> PStr s
                   | None \<Rightarrow>
                       (if truthy (file_or_default w [''ntfy_server_url''] PNone)
                        then file_or_default w [''ntfy_server_url''] PNone
                        else PStr ''https://ntfy.sh''))"
  proof (cases "env_present env ''NTFY_SERVER_URL''")
    case None
    with v obtain x where "py_get w ''ntfy_server_url'' PNone = Inr x"
      and "py_or x (Inr (PStr ''https://ntfy.sh'')) = Inr v"
      by (auto simp: bind_Inr py_or_env_str)
    with None show ?thesis
      by (auto simp: py_or_def dest!: file_or_default_key split: if_splits)
  next
    case (Some s)
    with v have "py_or (PStr s) (Inr (PStr ''https://ntfy.sh'')) = Inr v"
      by (simp add: py_or_env_str bind_def)
    with present[OF Some] Some show ?thesis by (simp add: py_or_def)
  qed
  have a: "\<exists>v. map_of c ''NTFY_SERVER_URL'' = Some v \<and> truthy v \<and>
            ((case file_value d [''notification'', ''webhooks'', ''ntfy_server_url''] of
                Some x \<Rightarrow> is_str x \<or> \<not> truthy x
              | None \<Rightarrow> True) \<longrightarrow> (\<exists>s. v = PStr s \<and> s \<noteq> []))"
    using cv ntfy present[of "''NTFY_SERVER_URL''"]
    by (auto simp del: file_value.simps simp: fv file_or_default_def is_str_def
        split: option.splits pyval.splits if_splits)
  have b: "env_present env ''NTFY_SERVER_URL'' = None \<and>
          \<not> truthy (file_or_default d [''notification'', ''webhooks'', ''ntfy_server_url''] PNone)
            \<longrightarrow> map_of c ''NTFY_SERVER_URL'' = Some (PStr ''https://ntfy.sh'')"
    using cv ntfy by (auto simp del: file_value.simps simp: fv file_or_default_def)
  have field: "map_of c var = Some (file_or_default d [''notification'', ''webhooks'', key] (PStr []))"
    if "(var, key) \<in> set webhook_fields" and "env_present env var = None" for var key
  proof -
    from webhook_item[OF assms that(1)] obtain n' w' x where
      "py_get d ''notification'' (PDict []) = Inr n'" "py_get n' ''webhooks'' (PDict []) = Inr w'"
      "webhook_field env w' var key = Inr x" "map_of c var = Some x"
      by blast
    with n w that(2) show ?thesis
      by (auto simp del: file_value.simps simp: fv webhook_field_def py_or_env_str
          file_or_default_def dest!: py_get_file_value)
  qed
  have c3: "\<forall>(var, key) \<in> set webhook_fields.
            env_present env var = None \<and>
            \<not> truthy (file_or_default d [''notification'', ''webhooks'', key] (PStr []))
            \<longrightarrow> map_of c var =
                  Some (file_or_default d [''notification'', ''webhooks'', key] (PStr []))"
    using field by blast
  have c4: "\<forall>(var, key) \<in> set webhook_fields.
            env_present env var = None \<and>
            file_value d [''notification'', ''webhooks'', key] \<in> {None, Some (PStr [])}
            \<longrightarrow> map_of c var = Some (PStr [])"
    using field by (auto simp del: file_value.simps simp: file_or_default_def)
  from a b c3 c4 show ?thesis by blast
qed

theorem ntfy_server_url_default_witness:
  "map_sum id (\<lambda>c. (map_of c ''NTFY_SERVER_URL'', map_of c ''BARK_URL''))
     (load_webhook_config Map.empty
        (PDict [(PStr ''notification'', PDict [(PStr ''webhooks'',
           PDict [(PStr ''ntfy_server_url'', PStr [])])])]))
   = Inr (Some (PStr ''https://ntfy.sh''), Some (PStr []))"
proof -
  obtain c where h: "load_webhook_config Map.empty
     (PDict [(PStr ''notification'', PDict [(PStr ''webhooks'',
        PDict [(PStr ''ntfy_server_url'', PStr [])])])]) = Inr c"
    by (simp add: load_webhook_config_def bind_def py_get_def webhook_field_def py_or_def
        get_env_str_def environ_get_def strip_Nil)
  from ntfy_server_url_default[OF h]
  have "map_of c ''NTFY_SERVER_URL'' = Some (PStr ''https://ntfy.sh'')"
    by (simp add: env_present_def file_or_default_def)
  moreover from ntfy_server_url_default[OF h]
  have "map_of c ''BARK_URL'' = Some (PStr [])"
    by (simp add: env_present_def webhook_fields_def)
  ultimately show ?thesis by (simp add: h)
qed

subsection \<open>The printed summary\<close>

text \<open>
  Claim C4, as stated, fails for the email channel: its line states the channel and the
  source and no account count.
\<close>

theorem email_line_counterexample:
  "print_notification_sources parse_account_value validate_paired_configs Map.empty
     (dict_update unconfigured
        [(''EMAIL_FROM'', PStr ''a@x.org''), (''EMAIL_PASSWORD'', PStr ''pw''),
         (''EMAIL_TO'', PStr ''b@x.org'')])
   = Inr [SourcesLine [\<lparr>channel = Email, source = FileSource, count = None\<rparr>],
          MaxAccountsLine (PInt 3)]"
  by (simp add: loader_defs parser_defs unconfigured_def)

text \<open>
  Claim C4, amended. When \<open>MAX_ACCOUNTS_PER_CHANNEL\<close> is an integer \<open>m\<close>, every line of
  the summary other than the email channel's states an account count equal to
  \<open>min n m\<close>, where \<open>n\<close> is the number of parsed account tokens for a channel with one
  field and for ntfy without tokens, and the count of the pairing validator for Telegram
  and for ntfy with tokens; so 5 tokens and a maximum of 3 are reported as 3. The email
  channel's line, and only it, states no count.
\<close>

theorem summary_counts:
  assumes "print_notification_sources parse validate env c = Inr out"
    and "map_of c ''MAX_ACCOUNTS_PER_CHANNEL'' = Some (PInt m)"
    and "e \<in> set (printed_entries out)"
  shows "count e =
           map_option (\<lambda>t. PInt (min t m)) (account_total parse validate c (channel e)) \<and>
         (count e = None \<longleftrightarrow> channel e = Email)"
proof -
  from assms(1) obtain mx es where mx: "map_of c ''MAX_ACCOUNTS_PER_CHANNEL'' = Some mx"
    and es: "notification_sources parse validate env c mx = Inr es"
    and out: "printed_entries out = es"
    by (rule print_Inr)
  from mx assms(2) have m: "mx = PInt m" by simp
  from assms(3) out have "e \<in> set es" by simp
  from summary_entry[OF es this] have
    "case account_total parse validate c (channel e) of
       None \<Rightarrow> count e = None
     | Some t \<Rightarrow> (\<exists>n. py_min t mx = Inr n \<and> count e = Some n) \<and>
              (channel e = Telegram \<or>
               channel e = Ntfy \<and> tokens_of parse c ''NTFY_TOKEN'' \<noteq> [] \<longrightarrow> 0 < t)"
    by blast
  then have "count e =
      map_option (\<lambda>t. PInt (min t m)) (account_total parse validate c (channel e))"
    by (auto simp: m py_min_int split: option.splits)
  then show ?thesis by (cases "channel e") auto
qed

theorem summary_counts_witness:
  "map_sum id printed_entries
     (print_notification_sources parse_account_value validate_paired_configs Map.empty
        (dict_update unconfigured [(''FEISHU_WEBHOOK_URL'', PStr ''u1,u2,u3,u4,u5'')]))
   = Inr [\<lparr>channel = Feishu, source = FileSource, count = Some (PInt 3)\<rparr>]"
proof -
  let ?c = "dict_update unconfigured [(''FEISHU_WEBHOOK_URL'', PStr ''u1,u2,u3,u4,u5'')]"
  let ?e = "\<lparr>channel = Feishu, source = FileSource, count = None\<rparr>"
  obtain n where h: "print_notification_sources parse_account_value validate_paired_configs
      Map.empty ?c = Inr [SourcesLine [?e\<lparr>count := n\<rparr>], MaxAccountsLine (PInt 3)]"
    by (simp add: loader_defs parser_defs unconfigured_def)
  have "count (?e\<lparr>count := n\<rparr>) =
      map_option (\<lambda>t. PInt (min t 3))
        (account_total parse_account_value validate_paired_configs ?c (channel (?e\<lparr>count := n\<rparr>)))"
    using summary_counts[OF h, of 3 "?e\<lparr>count := n\<rparr>"]
    by (simp add: unconfigured_def dict_update_def)
  then have "n = Some (PInt 3)"
    by (simp add: tokens_of_def config_item_Cons parser_defs strip_def is_space_def
        unconfigured_def dict_update_def)
  with h show ?thesis by simp
qed

text \<open>
  Claim C5, as stated, fails: a channel with one field contributes its line whenever the
  field is truthy, also when the count it reports is 0. With the Feishu field set to a
  single comma, which parses to no token, and with one Feishu token and a maximum of 0,
  the summary has a Feishu line with count 0 and does not say that no channel is
  configured.
\<close>

theorem zero_count_line_counterexample:
  "print_notification_sources parse_account_value validate_paired_configs Map.empty
     (dict_update unconfigured [(''FEISHU_WEBHOOK_URL'', PStr '','')])
   = Inr [SourcesLine [\<lparr>channel = Feishu, source = FileSource, count = Some (PInt 0)\<rparr>],
          MaxAccountsLine (PInt 3)] \<and>
   print_notification_sources parse_account_value validate_paired_configs Map.empty
     (dict_update unconfigured
        [(''MAX_ACCOUNTS_PER_CHANNEL'', PInt 0), (''FEISHU_WEBHOOK_URL'', PStr ''u1'')])
   = Inr [SourcesLine [\<lparr>channel = Feishu, source = FileSource, count = Some (PInt 0)\<rparr>],
          MaxAccountsLine (PInt 0)]"
  by (simp add: loader_defs parser_defs unconfigured_def)

text \<open>
  Claim C5, amended. A channel contributes a line to the summary only when every field
  its block tests is truthy, and Telegram and ntfy with tokens only when, in addition,
  the count of the pairing validator is greater than 0. The summary states that no
  channel is configured exactly when no channel contributed a line.
\<close>

theorem summary_lines_gated:
  assumes "print_notification_sources parse validate env c = Inr out"
  shows "(\<forall>e \<in> set (printed_entries out).
            (\<forall>k \<in> set (channel_fields (channel e)). field_truthy c k) \<and>
            (channel e = Telegram \<or>
             channel e = Ntfy \<and> tokens_of parse c ''NTFY_TOKEN'' \<noteq> [] \<longrightarrow>
               (\<exists>t. account_total parse validate c (channel e) = Some t \<and> 0 < t))) \<and>
         (NoChannelLine \<in> set out \<longleftrightarrow> printed_entries out = [])"
proof -
  from assms obtain mx es where
    es: "notification_sources parse validate env c mx = Inr es"
    and out: "printed_entries out = es"
    and none: "NoChannelLine \<in> set out \<longleftrightarrow> es = []"
    by (rule print_Inr)
  have "(\<forall>k \<in> set (channel_fields (channel e)). field_truthy c k) \<and>
        (channel e = Telegram \<or>
         channel e = Ntfy \<and> tokens_of parse c ''NTFY_TOKEN'' \<noteq> [] \<longrightarrow>
           (\<exists>t. account_total parse validate c (channel e) = Some t \<and> 0 < t))"
    if "e \<in> set es" for e
    using summary_entry[OF es that] by (cases "channel e") auto
  with out none show ?thesis by simp
qed

theorem summary_lines_gated_witness:
  "map_sum id (\<lambda>out. (printed_entries out, NoChannelLine \<in> set out))
     (print_notification_sources parse_account_value validate_paired_configs Map.empty
        (dict_update unconfigured [(''BARK_URL'', PStr ''b1'')]))
   = Inr ([\<lparr>channel = Bark, source = FileSource, count = Some (PInt 1)\<rparr>], False) \<and>
   field_truthy (dict_update unconfigured [(''BARK_URL'', PStr ''b1'')]) ''BARK_URL''"
proof -
  let ?c = "dict_update unconfigured [(''BARK_URL'', PStr ''b1'')]"
  let ?e = "\<lparr>channel = Bark, source = FileSource, count = Some (PInt 1)\<rparr>"
  have h: "print_notification_sources parse_account_value validate_paired_configs
      Map.empty ?c = Inr [SourcesLine [?e], MaxAccountsLine (PInt 3)]"
    by (simp add: loader_defs parser_defs unconfigured_def)
  from summary_lines_gated[OF h] have "field_truthy ?c ''BARK_URL''" by simp
  with h show ?thesis by simp
qed

text \<open>
  Claim C6 fails on the code, which tests the raw variable where resolution tests the
  trimmed one. With \<open>FEISHU_WEBHOOK_URL\<close> set to two spaces (absent in the sense of
  section 4.1) and \<open>feishu_url: u1\<close> in the file, the resolved value is the file's \<open>u1\<close>
  and the summary reports the environment as its source.
\<close>

theorem whitespace_env_reported_as_environment:
  "env_present [''FEISHU_WEBHOOK_URL'' \<mapsto> ''  ''] ''FEISHU_WEBHOOK_URL'' = None \<and>
   map_sum id (\<lambda>(c, out). (map_of c ''FEISHU_WEBHOOK_URL'', printed_entries out))
     (load_config parse_account_value validate_paired_configs
        [''config.yaml'' \<mapsto> Document (PDict [(PStr ''notification'', PDict [
           (PStr ''webhooks'', PDict [(PStr ''feishu_url'', PStr ''u1'')])])])]
        [''FEISHU_WEBHOOK_URL'' \<mapsto> ''  ''] (Some ''config.yaml''))
   = Inr (Some (PStr ''u1''),
          [\<lparr>channel = Feishu, source = EnvSource, count = Some (PInt 1)\<rparr>])"
  by (simp add: loader_defs parser_defs env_present_def)

text \<open>
  Claim C10, as stated, fails on values that are not strings: with the integer password
  \<open>123456\<close> in the configuration the email channel is reported.
\<close>

theorem email_int_password_counterexample:
  "print_notification_sources parse_account_value validate_paired_configs Map.empty
     (dict_update unconfigured
        [(''EMAIL_FROM'', PStr ''a@x.org''), (''EMAIL_PASSWORD'', PInt 123456),
         (''EMAIL_TO'', PStr ''b@x.org'')])
   = Inr [SourcesLine [\<lparr>channel = Email, source = FileSource, count = None\<rparr>],
          MaxAccountsLine (PInt 3)] \<and>
   \<not> is_str (PInt 123456)"
  by (simp add: loader_defs parser_defs unconfigured_def is_str_def)

text \<open>
  Claim C10, amended. The email channel is reported in the summary exactly when the
  resolved \<open>EMAIL_FROM\<close>, \<open>EMAIL_PASSWORD\<close> and \<open>EMAIL_TO\<close> are all truthy (for strings:
  not empty). The values of \<open>EMAIL_SMTP_SERVER\<close> and \<open>EMAIL_SMTP_PORT\<close> have no effect
  on the summary.
\<close>

theorem email_listed_iff:
  assumes "print_notification_sources parse validate env c = Inr out"
  shows "(Email \<in> channel ` set (printed_entries out) \<longleftrightarrow>
            field_truthy c ''EMAIL_FROM'' \<and> field_truthy c ''EMAIL_PASSWORD'' \<and>
            field_truthy c ''EMAIL_TO'') \<and>
         (\<forall>k \<in> {''EMAIL_SMTP_SERVER'', ''EMAIL_SMTP_PORT''}. \<forall>x.
            print_notification_sources parse validate env (AList.update k x c) = Inr out)"
proof -
  from assms obtain mx es where
    es: "notification_sources parse validate env c mx = Inr es"
    and out: "printed_entries out = es"
    by (rule print_Inr)
  from email_channel_listed[OF es] out
  have "Email \<in> channel ` set (printed_entries out) \<longleftrightarrow>
            field_truthy c ''EMAIL_FROM'' \<and> field_truthy c ''EMAIL_PASSWORD'' \<and>
            field_truthy c ''EMAIL_TO''"
    by simp
  moreover have "\<forall>k \<in> {''EMAIL_SMTP_SERVER'', ''EMAIL_SMTP_PORT''}. \<forall>x.
            print_notification_sources parse validate env (AList.update k x c) = Inr out"
    using assms print_update[of _ parse validate env _ c] by auto
  ultimately show ?thesis by blast
qed

theorem email_listed_iff_witness:
  "map_sum id (\<lambda>out. Email \<in> channel ` set (printed_entries out))
     (print_notification_sources parse_account_value validate_paired_configs Map.empty
        (dict_update unconfigured
           [(''EMAIL_FROM'', PStr ''a@x.org''), (''EMAIL_PASSWORD'', PStr ''pw'')]))
   = Inr False \<and>
   \<not> field_truthy (dict_update unconfigured
           [(''EMAIL_FROM'', PStr ''a@x.org''), (''EMAIL_PASSWORD'', PStr ''pw'')]) ''EMAIL_TO''"
proof -
  let ?c = "dict_update unconfigured
           [(''EMAIL_FROM'', PStr ''a@x.org''), (''EMAIL_PASSWORD'', PStr ''pw'')]"
  have h: "print_notification_sources parse_account_value validate_paired_configs
      Map.empty ?c = Inr [NoChannelLine]"
    by (simp add: loader_defs parser_defs unconfigured_def)
  have f: "\<not> field_truthy ?c ''EMAIL_TO''"
    by (simp add: field_truthy_def unconfigured_def dict_update_def)
  from email_listed_iff[OF h] f have "Email \<notin> channel ` set (printed_entries [NoChannelLine])"
    by blast
  with h f show ?thesis by simp
qed

subsection \<open>\<open>load_config\<close> as a whole\<close>

text \<open>
  Claim C1, as stated, fails: the path exists, the file is empty, \<^verbatim>\<open>yaml.safe_load\<close>
  returns \<open>None\<close>, and the first \<^verbatim>\<open>config_data.get\<close> raises \<^verbatim>\<open>AttributeError\<close>.
\<close>

theorem empty_file_counterexample:
  "load_config parse_account_value validate_paired_configs
     [''config.yaml'' \<mapsto> Document PNone] Map.empty (Some ''config.yaml'') = Inl AttributeError"
  by (simp add: load_config_def safe_load_def load_app_config_def py_get_def bind_def)

text \<open>
  Claim C1, amended. \<open>load_config\<close> raises \<^verbatim>\<open>FileNotFoundError\<close> when the path does not
  exist. For a path that exists it returns a configuration, raising nothing, whenever
  the account parser returns on every string and the file parses to a mapping in which
  every section and subsection the loaders read is a mapping or absent,
  \<open>max_accounts_per_channel\<close> is absent or a number whose text can be made (an int of at
  most 4300 digits, a bool or a float), and the webhook fields parsed into accounts are
  strings or absent; missing sections, missing keys and unparsable values of environment
  variables are among these files.
\<close>

theorem load_config_returns:
  "(fs (effective_path env config_path) = None \<longrightarrow>
      load_config parse validate fs env config_path = Inl FileNotFoundError) \<and>
   (\<forall>doc. fs (effective_path env config_path) = Some (Document doc) \<and> well_formed doc \<and>
      (\<forall>s. returns (parse (PStr s))) \<longrightarrow>
      returns (load_config parse validate fs env config_path))"
proof (intro conjI allI impI)
  assume "fs (effective_path env config_path) = None"
  then show "load_config parse validate fs env config_path = Inl FileNotFoundError"
    by (simp add: load_config_def effective_path_def)
next
  fix doc
  assume a: "fs (effective_path env config_path) = Some (Document doc) \<and> well_formed doc \<and>
      (\<forall>s. returns (parse (PStr s)))"
  then have fs: "fs (effective_path env config_path) = Some (Document doc)"
    and parse: "\<forall>s. returns (parse (PStr s))" by simp_all
  from a have d: "is_dict doc"
    and sec: "dict_or_absent doc [''app'']" "dict_or_absent doc [''crawler'']"
      "dict_or_absent doc [''report'']" "dict_or_absent doc [''notification'']"
      "dict_or_absent doc [''weight'']" "dict_or_absent doc [''storage'']"
      "dict_or_absent doc [''notification'', ''push_window'']"
      "dict_or_absent doc [''notification'', ''push_window'', ''time_range'']"
      "dict_or_absent doc [''notification'', ''webhooks'']"
      "dict_or_absent doc [''storage'', ''formats'']" "dict_or_absent doc [''storage'', ''local'']"
      "dict_or_absent doc [''storage'', ''remote'']" "dict_or_absent doc [''storage'', ''pull'']"
    and mxf: "case file_value doc [''notification'', ''max_accounts_per_channel''] of
        Some v \<Rightarrow> is_number v \<and> formats v | None \<Rightarrow> True"
    and strf: "list_all
       (\<lambda>k. case file_value doc [''notification'', ''webhooks'', k] of
               Some v \<Rightarrow> is_str v
             | None \<Rightarrow> True)
       account_keys"
    by (simp_all del: file_value.simps add: well_formed_def)
  obtain app where app: "load_app_config env doc = Inr app"
    using load_app_returns[OF d sec(1)] by (auto simp: returns_iff)
  obtain crawler where crawler: "load_crawler_config env doc = Inr crawler"
    using load_crawler_returns[OF d sec(2)] by (auto simp: returns_iff)
  obtain report where report: "load_report_config env doc = Inr report"
    using load_report_returns[OF d sec(3)] by (auto simp: returns_iff)
  obtain n where n: "load_notification_config env doc = Inr n"
    using load_notification_returns[OF d sec(4)] by (auto simp: returns_iff)
  obtain pw where pw: "load_push_window_config env doc = Inr pw"
    using load_push_window_returns[OF d sec(4) sec(7) sec(8)] by (auto simp: returns_iff)
  obtain weight where weight: "load_weight_config doc = Inr weight"
    using load_weight_returns[OF d sec(5)] by (auto simp: returns_iff)
  obtain platforms where platforms: "py_get doc ''platforms'' (PList []) = Inr platforms"
    using d by (cases doc) (simp_all add: is_dict_def py_get_def)
  obtain storage where storage: "load_storage_config env doc = Inr storage"
    using load_storage_returns[OF d sec(6) sec(10) sec(11) sec(12) sec(13)]
    by (auto simp: returns_iff)
  obtain w where w: "load_webhook_config env doc = Inr w"
    using load_webhook_returns[OF d sec(4) sec(9)] by (auto simp: returns_iff)
  define c0 where "c0 = dict_update (dict_update (dict_update (dict_update
      (dict_update (dict_update (dict_update (dict_update [] app) crawler) report) n)
      [(''PUSH_WINDOW'', as_dict pw)]) [(''WEIGHT_CONFIG'', as_dict weight)])
      [(''PLATFORMS'', platforms)]) [(''STORAGE'', as_dict storage)]"
  define c where "c = dict_update c0 w"
  note wk = webhook_keys[OF w] and nk = notification_keys[OF n]
  have wset: "fst ` set w = set (map fst w)" and nset: "fst ` set n = set (map fst n)"
    by simp_all
  have in_w: "map_of c k = map_of w k" if "k \<in> set (map fst w)" for k
    unfolding c_def
  proof (rule map_of_dict_update_in)
    from that show "k \<in> fst ` set w" by (simp only: wset)
    show "distinct (map fst w)" by (simp add: wk)
  qed
  have "map_of c ''MAX_ACCOUNTS_PER_CHANNEL'' = map_of n ''MAX_ACCOUNTS_PER_CHANNEL''"
  proof -
    have "''MAX_ACCOUNTS_PER_CHANNEL'' \<notin> fst ` set w"
      unfolding wset wk by simp
    then have "map_of c ''MAX_ACCOUNTS_PER_CHANNEL'' = map_of c0 ''MAX_ACCOUNTS_PER_CHANNEL''"
      unfolding c_def by (rule map_of_dict_update_notin)
    also have "\<dots> = map_of (dict_update (dict_update (dict_update (dict_update [] app) crawler)
        report) n) ''MAX_ACCOUNTS_PER_CHANNEL''"
      unfolding c0_def by (simp add: map_of_dict_update_notin)
    also have "\<dots> = map_of n ''MAX_ACCOUNTS_PER_CHANNEL''"
    proof (rule map_of_dict_update_in)
      show "''MAX_ACCOUNTS_PER_CHANNEL'' \<in> fst ` set n" unfolding nset nk by simp
      show "distinct (map fst n)" by (simp add: nk)
    qed
    finally show ?thesis .
  qed
  with notification_max_number[OF n mxf] obtain mx where
    mx: "map_of c ''MAX_ACCOUNTS_PER_CHANNEL'' = Some mx" "is_number mx \<and> formats mx" by auto
  have str: "\<exists>s. map_of c var = Some (PStr s)"
    if "(var, key) \<in> set webhook_fields" "key \<in> set account_keys" for var key
  proof -
    from strf that(2) have "case file_value doc [''notification'', ''webhooks'', key] of
        Some v \<Rightarrow> is_str v | None \<Rightarrow> True"
      by (simp del: file_value.simps add: list_all_iff)
    from webhook_value_str[OF w that(1) this] obtain s where "map_of w var = Some (PStr s)"
      by blast
    moreover from that(1) have "var \<in> set (map fst w)"
      unfolding wk by (auto simp: webhook_fields_def)
    ultimately show ?thesis using in_w by auto
  qed
  have present: "map_of c k \<noteq> None" if "k \<in> set (map fst w)" for k
    using in_w[OF that] that by (simp only: map_of_eq_None_iff wset not_not)
  have "returns (print_notification_sources parse validate env c)"
  proof (rule print_returns[OF mx _ _ parse])
    show "\<forall>k\<in>set [''FEISHU_WEBHOOK_URL'', ''DINGTALK_WEBHOOK_URL'', ''WEWORK_WEBHOOK_URL'',
        ''TELEGRAM_BOT_TOKEN'', ''TELEGRAM_CHAT_ID'', ''NTFY_TOPIC'', ''NTFY_TOKEN'', ''BARK_URL'',
        ''SLACK_WEBHOOK_URL'']. \<exists>s. map_of c k = Some (PStr s)"
      using str[of "''FEISHU_WEBHOOK_URL''" "''feishu_url''"]
        str[of "''DINGTALK_WEBHOOK_URL''" "''dingtalk_url''"]
        str[of "''WEWORK_WEBHOOK_URL''" "''wework_url''"]
        str[of "''TELEGRAM_BOT_TOKEN''" "''telegram_bot_token''"]
        str[of "''TELEGRAM_CHAT_ID''" "''telegram_chat_id''"]
        str[of "''NTFY_TOPIC''" "''ntfy_topic''"]
        str[of "''NTFY_TOKEN''" "''ntfy_token''"]
        str[of "''BARK_URL''" "''bark_url''"]
        str[of "''SLACK_WEBHOOK_URL''" "''slack_webhook_url''"]
      by (simp add: webhook_fields_def account_keys_def)
    show "\<forall>k\<in>set [''EMAIL_FROM'', ''EMAIL_PASSWORD'', ''EMAIL_TO'', ''NTFY_SERVER_URL''].
        map_of c k \<noteq> None"
      using present unfolding wk by simp
  qed
  then obtain out where "print_notification_sources parse validate env c = Inr out"
    by (auto simp: returns_iff)
  with fs app crawler report n pw weight platforms storage w
  show "returns (load_config parse validate fs env config_path)"
    by (simp add: load_config_def effective_path_def safe_load_def bind_return Let_def c_def
        c0_def)
qed

theorem load_config_returns_witness:
  "well_formed (PDict [(PStr ''notification'', PDict [(PStr ''max_accounts_per_channel'', PInt 5),
      (PStr ''webhooks'', PDict [(PStr ''feishu_url'', PStr ''u1,u2'')])])]) \<and>
   returns (load_config parse_account_value validate_paired_configs
     [''config.yaml'' \<mapsto> Document (PDict [(PStr ''notification'',
        PDict [(PStr ''max_accounts_per_channel'', PInt 5),
               (PStr ''webhooks'', PDict [(PStr ''feishu_url'', PStr ''u1,u2'')])])])]
     [''PULL_DAYS'' \<mapsto> ''x''] (Some ''config.yaml'')) \<and>
   load_config parse_account_value validate_paired_configs Map.empty
     [''PULL_DAYS'' \<mapsto> ''x''] (Some ''config.yaml'') = Inl FileNotFoundError"
proof -
  let ?doc = "PDict [(PStr ''notification'', PDict [(PStr ''max_accounts_per_channel'', PInt 5),
      (PStr ''webhooks'', PDict [(PStr ''feishu_url'', PStr ''u1,u2'')])])]"
  have wf: "well_formed ?doc"
    by (simp add: well_formed_def is_dict_def dict_or_absent_def is_number_def is_str_def
        account_keys_def digit_formats)
  have total: "\<forall>s. returns (parse_account_value (PStr s))"
    by (simp add: parse_account_value_def)
  have p: "effective_path [''PULL_DAYS'' \<mapsto> ''x''] (Some ''config.yaml'') = ''config.yaml''"
    by (simp add: effective_path_def)
  from load_config_returns[of "[''config.yaml'' \<mapsto> Document ?doc]" "[''PULL_DAYS'' \<mapsto> ''x'']"
      "Some ''config.yaml''" parse_account_value validate_paired_configs] wf total
  have "returns (load_config parse_account_value validate_paired_configs
     [''config.yaml'' \<mapsto> Document ?doc] [''PULL_DAYS'' \<mapsto> ''x''] (Some ''config.yaml''))"
    by (simp only: p) simp
  moreover from load_config_returns[of Map.empty "[''PULL_DAYS'' \<mapsto> ''x'']"
      "Some ''config.yaml''" parse_account_value validate_paired_configs]
  have "load_config parse_account_value validate_paired_configs Map.empty
     [''PULL_DAYS'' \<mapsto> ''x''] (Some ''config.yaml'') = Inl FileNotFoundError"
    by simp
  ultimately show ?thesis using wf by blast
qed

end
